theory Spec2Isabelle
  imports Complex_Main "HOL-Library.Char_ord" "HOL-Library.List_Lexorder" "HOL-Library.Multiset"
begin

section \<open>JavaScript numbers and values\<close>

text \<open>
  A JavaScript number is NaN, one of the two infinities, or a finite value. Finite values
  are kept exact, as rationals: every check of the handlers below (integrality, range
  comparisons) reads the value the number has, whatever rounding produced it.
\<close>

datatype jsnum = NaN | PosInf | NegInf | Fin rat

text \<open>The relational operators; every comparison with NaN is false.\<close>

fun js_lt :: "jsnum \<Rightarrow> jsnum \<Rightarrow> bool" where
  "js_lt NaN _ = False"
| "js_lt _ NaN = False"
| "js_lt (Fin a) (Fin b) = (a < b)"
| "js_lt NegInf NegInf = False"
| "js_lt NegInf _ = True"
| "js_lt _ NegInf = False"
| "js_lt PosInf _ = False"
| "js_lt (Fin a) PosInf = True"

definition js_gt :: "jsnum \<Rightarrow> jsnum \<Rightarrow> bool" where
  "js_gt a b = js_lt b a"

definition js_le :: "jsnum \<Rightarrow> jsnum \<Rightarrow> bool" where
  "js_le a b = (a \<noteq> NaN \<and> b \<noteq> NaN \<and> \<not> js_lt b a)"

definition js_ge :: "jsnum \<Rightarrow> jsnum \<Rightarrow> bool" where
  "js_ge a b = js_le b a"

text \<open>\<^verbatim>\<open>isNaN(x)\<close> on a value that is already a number.\<close>

definition isNaN :: "jsnum \<Rightarrow> bool" where
  "isNaN x = (x = NaN)"

text \<open>\<^verbatim>\<open>Number.isInteger(x)\<close>: finite and without fractional part.\<close>

fun Number_isInteger :: "jsnum \<Rightarrow> bool" where
  "Number_isInteger (Fin r) = (of_int \<lfloor>r\<rfloor> = r)"
| "Number_isInteger _ = False"

text \<open>
  The values a request hands to the handlers: a field of a parsed JSON body, or
  \<^verbatim>\<open>undefined\<close> for a missing one. An array or a nested object is given by the string
  its conversion to a primitive yields (\<^verbatim>\<open>[]\<close> by the empty string,
  \<^verbatim>\<open>{}\<close> by \<^verbatim>\<open>[object Object]\<close>), which is all that the coercions
  below read of it.
\<close>

datatype jsval =
    JUndefined
  | JNull
  | JBool bool
  | JNum jsnum
  | JStr string
  | JObject string

text \<open>
  \<^verbatim>\<open>Number(v)\<close>. The conversion of a string (ECMAScript's StringToNumber) belongs to
  the language runtime, not to this repository; it is the parameter \<open>s2n\<close>, and every
  statement below holds for whatever function the runtime supplies.
\<close>

fun Number :: "(string \<Rightarrow> jsnum) \<Rightarrow> jsval \<Rightarrow> jsnum" where
  "Number s2n JUndefined = NaN"
| "Number s2n JNull = Fin 0"
| "Number s2n (JBool b) = (if b then Fin 1 else Fin 0)"
| "Number s2n (JNum n) = n"
| "Number s2n (JStr s) = s2n s"
| "Number s2n (JObject p) = s2n p"

section \<open>Range checks\<close>

text \<open>
  \<^verbatim>\<open>isValidRating\<close> and \<^verbatim>\<open>isValidYear\<close> as the validation tests define them.
  \<open>fullYear\<close> is what \<^verbatim>\<open>new Date().getFullYear()\<close> returns at the call.
\<close>

definition isValidRating :: "(string \<Rightarrow> jsnum) \<Rightarrow> jsval \<Rightarrow> bool" where
  "isValidRating s2n v =
     (let score = Number s2n v
      in Number_isInteger score \<and> js_ge score (Fin 1) \<and> js_le score (Fin 5))"

definition isValidYear :: "(string \<Rightarrow> jsnum) \<Rightarrow> int \<Rightarrow> jsval \<Rightarrow> bool" where
  "isValidYear s2n fullYear v =
     (let year = Number s2n v
      in Number_isInteger year \<and> js_ge year (Fin 1888) \<and> js_le year (Fin (of_int fullYear)))"

section \<open>Averages\<close>

text \<open>\<^verbatim>\<open>Math.round\<close>: the nearest integer, a tie going up.\<close>

definition Math_round :: "rat \<Rightarrow> rat" where
  "Math_round x = of_int \<lfloor>x + 1 / 2\<rfloor>"

text \<open>
  The average of the detail handler (and \<^verbatim>\<open>averageRating\<close> of the validation tests):
  \<^verbatim>\<open>Math.round((scores.reduce((a, b) => a + b, 0) / scores.length) * 10) / 10\<close>, and 0 for
  no scores. The scores come from an integer column.
\<close>

definition averageRating :: "int list \<Rightarrow> rat" where
  "averageRating ratingScores =
     (if length ratingScores > 0
      then Math_round ((of_int (foldl (+) 0 ratingScores) / of_nat (length ratingScores)) * 10) / 10
      else 0)"

text \<open>
  The store's aggregates. \<^verbatim>\<open>AVG\<close> over no row is NULL (\<open>None\<close>); \<^verbatim>\<open>ROUND(v, d)\<close> on
  a numeric rounds a tie away from zero; \<^verbatim>\<open>COALESCE(v, 0)\<close> replaces NULL by 0.
\<close>

definition sql_AVG :: "int list \<Rightarrow> rat option" where
  "sql_AVG xs = (if xs = [] then None else Some (of_int (sum_list xs) / of_nat (length xs)))"

definition sql_ROUND :: "rat \<Rightarrow> nat \<Rightarrow> rat" where
  "sql_ROUND v d = sgn v * of_int \<lfloor>\<bar>v\<bar> * 10 ^ d + 1 / 2\<rfloor> / 10 ^ d"

definition sql_COALESCE :: "rat option \<Rightarrow> rat \<Rightarrow> rat" where
  "sql_COALESCE v d = (case v of None \<Rightarrow> d | Some x \<Rightarrow> x)"

text \<open>The average of the specification, in its words: round((sum / count) * 10) / 10, and 0
  for the empty list.\<close>

definition spec_average :: "int list \<Rightarrow> rat" where
  "spec_average scores =
     (if scores = [] then 0
      else of_int (round ((of_int (sum_list scores) / of_nat (length scores)) * 10 :: rat)) / 10)"

section \<open>Schema\<close>

text \<open>
  The insert shape of a movie, with the type of \<open>year\<close> left open: the schema's output
  carries a JavaScript number, the row an integer. A stored movie adds the serial id, and
  the list and detail views add their statistics, as the intersection types of the schema
  module do. The column \<^verbatim>\<open>created_at\<close>, stamped by the store's clock, is not kept in
  the rows; the one query that orders by it takes the resulting arrangement as a
  parameter. Tables keep their rows in insertion order.
\<close>

record 'y InsertMovie =
  title :: string
  year :: 'y
  genre :: string

record Movie = "int InsertMovie" +
  movie_id :: int

record MovieWithStats = Movie +
  avgRating :: rat
  totalRatings :: nat

record MovieDetail = MovieWithStats +
  ratings_of :: "int list"

record Rating =
  rating_id :: int
  movieId :: int
  score :: int

record RatingStats =
  stats_avgRating :: rat
  stats_totalRatings :: nat

text \<open>
  The body of a request as the JSON body parser leaves it in \<^verbatim>\<open>req.body\<close>: an object
  (the empty one when the request carries none), given by its fields. Reading a missing
  field gives \<^verbatim>\<open>undefined\<close>.
\<close>

type_synonym body = "string \<rightharpoonup> jsval"

definition field :: "body \<Rightarrow> string \<Rightarrow> jsval" where
  "field b k = (case b k of None \<Rightarrow> JUndefined | Some v \<Rightarrow> v)"

text \<open>
  The validators that \<^verbatim>\<open>createInsertSchema(movies)\<close> derives from the columns. A
  \<^verbatim>\<open>text\<close> column that is not null gives \<^verbatim>\<open>z.string()\<close>: a required string, with no
  bound on its length. An \<^verbatim>\<open>integer\<close> column gives \<^verbatim>\<open>z.number()\<close>, which later
  releases of the schema generator refine to an integer of 32 bits; \<open>int_schema\<close> says
  which one is installed. Nothing is coerced.
\<close>

datatype ZodError = ZodError

datatype int_schema = Plain | Int32

definition z_string :: "jsval \<Rightarrow> string option" where
  "z_string v = (case v of JStr s \<Rightarrow> Some s | _ \<Rightarrow> None)"

definition z_number :: "jsval \<Rightarrow> jsnum option" where
  "z_number v = (case v of JNum n \<Rightarrow> (if n = NaN then None else Some n) | _ \<Rightarrow> None)"

definition z_integer :: "int_schema \<Rightarrow> jsval \<Rightarrow> jsnum option" where
  "z_integer izs v =
     (case z_number v of
        None \<Rightarrow> None
      | Some n \<Rightarrow>
          (case izs of
             Plain \<Rightarrow> Some n
           | Int32 \<Rightarrow>
               (if Number_isInteger n \<and> js_ge n (Fin (- 2147483648)) \<and> js_le n (Fin 2147483647)
                then Some n else None)))"

text \<open>
  \<^verbatim>\<open>insertMovieSchema.parse\<close>: \<^verbatim>\<open>id\<close> and \<^verbatim>\<open>createdAt\<close> are omitted from the
  shape, and an object schema drops every key it does not name.
\<close>

definition insertMovieSchema :: "int_schema \<Rightarrow> body \<Rightarrow> ZodError + jsnum InsertMovie" where
  "insertMovieSchema izs b =
     (case z_string (field b ''title'') of
        None \<Rightarrow> Inl ZodError
      | Some t \<Rightarrow>
          (case z_integer izs (field b ''year'') of
             None \<Rightarrow> Inl ZodError
           | Some y \<Rightarrow>
               (case z_string (field b ''genre'') of
                  None \<Rightarrow> Inl ZodError
                | Some g \<Rightarrow> Inr \<lparr>title = t, year = y, genre = g\<rparr>)))"

section \<open>Storage\<close>

text \<open>
  The two tables, each with the sequence behind its serial id. A row is appended by an
  insert and never changed or removed. The sequences are not bounded.
\<close>

record db =
  movies :: "Movie list"
  ratings :: "Rating list"
  movies_id_seq :: int
  ratings_id_seq :: int

text \<open>
  What the store raises and the storage layer lets through: a value that is not a 32-bit
  integer given for an integer column, and a rating for a movie that does not exist (the
  foreign key of \<^verbatim>\<open>ratings.movie_id\<close>). \<open>TypeError\<close> is the language's own, for a read
  through \<^verbatim>\<open>undefined\<close>.
\<close>

datatype error = TypeError | BadParameter | ForeignKeyViolation

definition int4 :: "int \<Rightarrow> bool" where
  "int4 k = (- 2147483648 \<le> k \<and> k \<le> 2147483647)"

text \<open>A number bound to an integer column has to be an integer of 32 bits.\<close>

definition int4_param :: "jsnum \<Rightarrow> bool" where
  "int4_param x =
     (Number_isInteger x \<and> js_ge x (Fin (- 2147483648)) \<and> js_le x (Fin 2147483647))"

text \<open>
  A number compared with an integer column matches by value. A number stored into an
  integer column is passed as the integer it is: the handlers store only numbers that
  \<open>Number_isInteger\<close> has accepted or that a lookup has matched.
\<close>

definition eq_col :: "int \<Rightarrow> jsnum \<Rightarrow> bool" where
  "eq_col c x = (x = Fin (of_int c))"

fun the_integer :: "jsnum \<Rightarrow> int" where
  "the_integer (Fin r) = \<lfloor>r\<rfloor>"
| "the_integer _ = 0"

definition insert_movie :: "db \<Rightarrow> int InsertMovie \<Rightarrow> db \<times> Movie" where
  "insert_movie d v =
     (let i = movies_id_seq d + 1;
          row = \<lparr>title = title v, year = year v, genre = genre v, movie_id = i\<rparr>
      in (d\<lparr>movies := movies d @ [row], movies_id_seq := i\<rparr>, row))"

text \<open>
  An insert into \<^verbatim>\<open>ratings\<close>: refused, with nothing stored, when the score is not a 32-bit
  integer or when no movie has the id. Several rows of one statement are stored together
  or not at all.
\<close>

definition insert_rating :: "db \<Rightarrow> int \<times> int \<Rightarrow> error + db" where
  "insert_rating d v =
     (if \<not> int4 (snd v) then Inl BadParameter
      else if \<not> list_ex (\<lambda>m. movie_id m = fst v) (movies d) then Inl ForeignKeyViolation
      else
        (let i = ratings_id_seq d + 1;
             row = \<lparr>rating_id = i, movieId = fst v, score = snd v\<rparr>
         in Inr (d\<lparr>ratings := ratings d @ [row], ratings_id_seq := i\<rparr>)))"

fun insert_ratings :: "db \<Rightarrow> (int \<times> int) list \<Rightarrow> error + db" where
  "insert_ratings d [] = Inr d"
| "insert_ratings d (v # vs) =
     (case insert_rating d v of Inl e \<Rightarrow> Inl e | Inr d' \<Rightarrow> insert_ratings d' vs)"

text \<open>
  \<^verbatim>\<open>getAllMovies\<close>: movies left-joined with their ratings, grouped by movie id, ordered
  by title. The join gives a movie one row for each of its ratings, and one row with NULLs
  when it has none. \<open>order_by_title\<close> is the store's \<^verbatim>\<open>ORDER BY title\<close>: it decides
  the collation and the order of rows with equal titles.
\<close>

definition join_rows :: "Rating list \<Rightarrow> Movie \<Rightarrow> (Movie \<times> Rating option) list" where
  "join_rows rs m =
     (case filter (\<lambda>r. movieId r = movie_id m) rs of
        [] \<Rightarrow> [(m, None)]
      | r # rs' \<Rightarrow> map (\<lambda>x. (m, Some x)) (r # rs'))"

definition leftJoin :: "Movie list \<Rightarrow> Rating list \<Rightarrow> (Movie \<times> Rating option) list" where
  "leftJoin ms rs = concat (map (join_rows rs) ms)"

definition groupBy_id :: "(Movie \<times> Rating option) list \<Rightarrow> (Movie \<times> Rating option) list list" where
  "groupBy_id rows =
     map (\<lambda>i. filter (\<lambda>row. movie_id (fst row) = i) rows) (remdups (map (\<lambda>row. movie_id (fst row)) rows))"

text \<open>The aggregates skip the NULLs that the join has put for a movie without ratings.\<close>

definition joined_scores :: "(Movie \<times> Rating option) list \<Rightarrow> int list" where
  "joined_scores g = concat (map (\<lambda>row. case snd row of None \<Rightarrow> [] | Some r \<Rightarrow> [score r]) g)"

definition stats_avg :: "int list \<Rightarrow> rat" where
  "stats_avg xs = sql_COALESCE (map_option (\<lambda>v. sql_ROUND v 1) (sql_AVG xs)) 0"

fun select_stats :: "(Movie \<times> Rating option) list \<Rightarrow> MovieWithStats list" where
  "select_stats [] = []"
| "select_stats ((m, r) # g) =
     [\<lparr>title = title m, year = year m, genre = genre m, movie_id = movie_id m,
       avgRating = stats_avg (joined_scores ((m, r) # g)),
       totalRatings = length (joined_scores ((m, r) # g))\<rparr>]"

definition getAllMovies ::
    "(MovieWithStats list \<Rightarrow> MovieWithStats list) \<Rightarrow> db \<Rightarrow> MovieWithStats list" where
  "getAllMovies order_by_title d =
     order_by_title (concat (map select_stats (groupBy_id (leftJoin (movies d) (ratings d)))))"

text \<open>
  \<^verbatim>\<open>getMovieById\<close>: the id is bound to the integer column, which the store refuses for
  a number that is not a 32-bit integer.
\<close>

definition getMovieById :: "db \<Rightarrow> jsnum \<Rightarrow> error + Movie option" where
  "getMovieById d i =
     (if \<not> int4_param i then Inl BadParameter
      else Inr (case filter (\<lambda>m. eq_col (movie_id m) i) (movies d) of
                  [] \<Rightarrow> None | m # _ \<Rightarrow> Some m))"

text \<open>
  \<^verbatim>\<open>getRatingsForMovie\<close>. \<open>newest_first\<close> is the store's
  \<^verbatim>\<open>ORDER BY created_at DESC\<close> on the rows selected; rows stamped alike come in an order
  of the store's choosing.
\<close>

definition getRatingsForMovie ::
    "(Rating list \<Rightarrow> Rating list) \<Rightarrow> db \<Rightarrow> jsnum \<Rightarrow> error + int list" where
  "getRatingsForMovie newest_first d i =
     (if \<not> int4_param i then Inl BadParameter
      else Inr (map score (newest_first (filter (\<lambda>r. eq_col (movieId r) i) (ratings d)))))"

definition addMovie :: "db \<Rightarrow> int InsertMovie \<Rightarrow> db \<times> Movie" where
  "addMovie d v = insert_movie d v"

text \<open>
  \<^verbatim>\<open>addRating\<close>: the insert, then the aggregates read from the table that holds the new
  row. \<^verbatim>\<open>Number\<close> of a NULL average is 0.
\<close>

definition addRating :: "db \<Rightarrow> int \<Rightarrow> int \<Rightarrow> error + db \<times> RatingStats" where
  "addRating d i s =
     (case insert_rating d (i, s) of
        Inl e \<Rightarrow> Inl e
      | Inr d' \<Rightarrow>
          (let xs = map score (filter (\<lambda>r. movieId r = i) (ratings d'))
           in Inr (d', \<lparr>stats_avgRating = (case map_option (\<lambda>v. sql_ROUND v 1) (sql_AVG xs) of
                                              None \<Rightarrow> 0 | Some a \<Rightarrow> a),
                         stats_totalRatings = length xs\<rparr>)))"

text \<open>
  \<^verbatim>\<open>seedMovies\<close>. Reading \<^verbatim>\<open>allMovies[k].id\<close> beyond the rows selected is a
  TypeError.
\<close>

definition seedData :: "int InsertMovie list" where
  "seedData =
     [\<lparr>title = ''The Godfather'', year = 1972, genre = ''Crime''\<rparr>,
      \<lparr>title = ''Pulp Fiction'', year = 1994, genre = ''Crime''\<rparr>,
      \<lparr>title = ''The Shawshank Redemption'', year = 1994, genre = ''Drama''\<rparr>,
      \<lparr>title = ''Schindler's List'', year = 1993, genre = ''Drama''\<rparr>,
      \<lparr>title = ''2001: A Space Odyssey'', year = 1968, genre = ''Sci-Fi''\<rparr>,
      \<lparr>title = ''Blade Runner'', year = 1982, genre = ''Sci-Fi''\<rparr>,
      \<lparr>title = ''Chinatown'', year = 1974, genre = ''Thriller''\<rparr>,
      \<lparr>title = ''Mulholland Drive'', year = 2001, genre = ''Thriller''\<rparr>,
      \<lparr>title = ''Singin' in the Rain'', year = 1952, genre = ''Musical''\<rparr>,
      \<lparr>title = ''Sunset Boulevard'', year = 1950, genre = ''Drama''\<rparr>]"

text \<open>The sample ratings: the index into \<^verbatim>\<open>allMovies\<close> and the score.\<close>

definition sampleRatings :: "(nat \<times> int) list" where
  "sampleRatings =
     [(0, 5), (0, 5), (0, 4), (1, 4), (1, 5), (2, 5), (2, 5), (2, 5), (3, 5), (3, 4),
      (4, 4), (4, 3), (5, 4), (5, 4), (5, 5), (6, 3), (7, 4), (7, 3), (8, 5), (8, 4),
      (8, 5), (9, 4), (9, 3)]"

fun resolve_ratings :: "Movie list \<Rightarrow> (nat \<times> int) list \<Rightarrow> error + (int \<times> int) list" where
  "resolve_ratings allMovies [] = Inr []"
| "resolve_ratings allMovies ((k, s) # rest) =
     (if k < length allMovies
      then (case resolve_ratings allMovies rest of
              Inl e \<Rightarrow> Inl e
            | Inr vs \<Rightarrow> Inr ((movie_id (allMovies ! k), s) # vs))
      else Inl TypeError)"

definition seedMovies :: "db \<Rightarrow> error + db" where
  "seedMovies d =
     (let existing = take 1 (map movie_id (movies d))
      in if length existing > 0 then Inr d
         else
           (let d1 = foldl (\<lambda>x v. fst (insert_movie x v)) d seedData;
                allMovies = movies d1
            in case resolve_ratings allMovies sampleRatings of
                 Inl e \<Rightarrow> Inl e
               | Inr vs \<Rightarrow> insert_ratings d1 vs))"

section \<open>Request handlers\<close>

text \<open>
  A response is a status and a JSON payload. A handler answers 500, and leaves the store as
  it was, when a call into the storage layer raises.
\<close>

datatype payload =
    Error string
  | MovieList "MovieWithStats list"
  | MovieBody Movie
  | DetailBody MovieDetail
  | StatsBody RatingStats

type_synonym response = "nat \<times> payload"

definition get_api_movies ::
    "(MovieWithStats list \<Rightarrow> MovieWithStats list) \<Rightarrow> db \<Rightarrow> response" where
  "get_api_movies order_by_title d = (200, MovieList (getAllMovies order_by_title d))"

text \<open>
  \<^verbatim>\<open>POST /api/movies\<close>. \<^verbatim>\<open>Number(parsed.year)\<close> is \<^verbatim>\<open>parsed.year\<close>, which the
  schema has made a number.
\<close>

definition post_api_movies :: "int_schema \<Rightarrow> int \<Rightarrow> db \<Rightarrow> body \<Rightarrow> db \<times> response" where
  "post_api_movies izs fullYear d b =
     (case insertMovieSchema izs b of
        Inl ZodError \<Rightarrow> (d, (400, Error ''Invalid fields''))
      | Inr parsed \<Rightarrow>
          (let y = year parsed
           in if \<not> Number_isInteger y \<or> js_lt y (Fin 1888) \<or> js_gt y (Fin (of_int fullYear))
              then (d, (400, Error ''Invalid year''))
              else
                (let (d', movie) =
                       addMovie d \<lparr>title = title parsed, year = the_integer y, genre = genre parsed\<rparr>
                 in (d', (201, MovieBody movie)))))"

definition get_api_movies_id ::
    "(string \<Rightarrow> jsnum) \<Rightarrow> (Rating list \<Rightarrow> Rating list) \<Rightarrow> db \<Rightarrow> string \<Rightarrow> response" where
  "get_api_movies_id s2n newest_first d params_id =
     (let i = Number s2n (JStr params_id)
      in if isNaN i then (400, Error ''Invalid ID'')
         else
           (case getMovieById d i of
              Inl e \<Rightarrow> (500, Error ''Failed to fetch movie'')
            | Inr None \<Rightarrow> (404, Error ''Not found'')
            | Inr (Some movie) \<Rightarrow>
                (case getRatingsForMovie newest_first d i of
                   Inl e \<Rightarrow> (500, Error ''Failed to fetch movie'')
                 | Inr ratingScores \<Rightarrow>
                     (200, DetailBody
                        \<lparr>title = title movie, year = year movie, genre = genre movie,
                         movie_id = movie_id movie,
                         avgRating = averageRating ratingScores,
                         totalRatings = length ratingScores,
                         ratings_of = ratingScores\<rparr>))))"

definition post_api_movies_id_rate ::
    "(string \<Rightarrow> jsnum) \<Rightarrow> db \<Rightarrow> string \<Rightarrow> body \<Rightarrow> db \<times> response" where
  "post_api_movies_id_rate s2n d params_id b =
     (let i = Number s2n (JStr params_id);
          sc = Number s2n (field b ''score'')
      in if isNaN i then (d, (400, Error ''Invalid ID''))
         else if \<not> Number_isInteger sc \<or> js_lt sc (Fin 1) \<or> js_gt sc (Fin 5)
         then (d, (400, Error ''Invalid rating''))
         else
           (case getMovieById d i of
              Inl e \<Rightarrow> (d, (500, Error ''Failed to add rating''))
            | Inr None \<Rightarrow> (d, (404, Error ''Not found''))
            | Inr (Some movie) \<Rightarrow>
                (case addRating d (the_integer i) (the_integer sc) of
                   Inl e \<Rightarrow> (d, (500, Error ''Failed to add rating''))
                 | Inr (d', result) \<Rightarrow> (d', (200, StatsBody result)))))"

section \<open>Vocabulary of the statements\<close>

text \<open>The scores stored for a movie, oldest first: what the statements below count and
  average.\<close>

definition scores_of :: "db \<Rightarrow> int \<Rightarrow> int list" where
  "scores_of d i = map score (filter (\<lambda>r. movieId r = i) (ratings d))"

text \<open>The mean of a list of scores.\<close>

definition mean :: "int list \<Rightarrow> rat" where
  "mean xs = of_int (sum_list xs) / of_nat (length xs)"

text \<open>
  The aggregate statistics of a movie as the specification words them: the count of its
  ratings, and their mean rounded to one decimal place, 0 when there is none. A mean
  halfway between two decimals goes to the one farther from zero, as the store rounds.
\<close>

definition rounded_mean :: "int list \<Rightarrow> rat" where
  "rounded_mean xs =
     (if xs = [] then 0
      else if 0 \<le> mean xs then of_int \<lfloor>mean xs * 10 + 1 / 2\<rfloor> / 10
      else - (of_int \<lfloor>- mean xs * 10 + 1 / 2\<rfloor> / 10))"


text \<open>The primary key of the movies table: ids are distinct, and the sequence has passed
  them all.\<close>

definition movies_pkey :: "db \<Rightarrow> bool" where
  "movies_pkey d =
     (distinct (map movie_id (movies d)) \<and> list_all (\<lambda>m. movie_id m \<le> movies_id_seq d) (movies d))"

section \<open>Properties\<close>

subsection \<open>Range checks\<close>

lemma Number_isInteger_iff: "Number_isInteger x \<longleftrightarrow> (\<exists>k. x = Fin (of_int k))"
proof (cases x)
  case (Fin r)
  have "(of_int \<lfloor>r\<rfloor> = r) \<longleftrightarrow> (\<exists>k. r = of_int k)"
    by (metis floor_of_int)
  with Fin show ?thesis by simp
qed simp_all

lemma js_cmp_Fin [simp]:
  "js_le (Fin a) (Fin b) = (a \<le> b)" "js_ge (Fin a) (Fin b) = (b \<le> a)"
  "js_gt (Fin a) (Fin b) = (b < a)"
  by (auto simp: js_le_def js_ge_def js_gt_def)

lemma Number_isInteger_of_int [simp]: "Number_isInteger (Fin (of_int k))"
  by simp

lemma valid_range_iff:
  "(Number_isInteger x \<and> js_ge x (Fin (of_int lo)) \<and> js_le x (Fin (of_int hi)))
     \<longleftrightarrow> (\<exists>k. x = Fin (of_int k) \<and> lo \<le> k \<and> k \<le> hi)"
  by (auto simp: Number_isInteger_iff)

lemma bad_range_iff:
  "(\<not> Number_isInteger x \<or> js_lt x (Fin (of_int lo)) \<or> js_gt x (Fin (of_int hi)))
     \<longleftrightarrow> \<not> (\<exists>k. x = Fin (of_int k) \<and> lo \<le> k \<and> k \<le> hi)"
proof -
  have "(\<not> Number_isInteger x \<or> js_lt x (Fin (of_int lo)) \<or> js_gt x (Fin (of_int hi)))
     \<longleftrightarrow> \<not> (Number_isInteger x \<and> js_ge x (Fin (of_int lo)) \<and> js_le x (Fin (of_int hi)))"
    by (cases x) (auto simp: js_gt_def js_le_def js_ge_def)
  then show ?thesis
    by (simp only: valid_range_iff)
qed

lemma isValidRating_char:
  "isValidRating s2n v \<longleftrightarrow> (\<exists>k. Number s2n v = Fin (of_int k) \<and> 1 \<le> k \<and> k \<le> 5)"
  using valid_range_iff [of "Number s2n v" 1 5] by (simp add: isValidRating_def)

lemma isValidYear_char:
  "isValidYear s2n fullYear v \<longleftrightarrow> (\<exists>k. Number s2n v = Fin (of_int k) \<and> 1888 \<le> k \<and> k \<le> fullYear)"
  using valid_range_iff [of "Number s2n v" 1888 fullYear] by (simp add: isValidYear_def)

lemma rate_check_iff:
  "(\<not> Number_isInteger (Number s2n v) \<or> js_lt (Number s2n v) (Fin 1) \<or> js_gt (Number s2n v) (Fin 5))
     \<longleftrightarrow> \<not> isValidRating s2n v"
  using bad_range_iff [of "Number s2n v" 1 5] by (simp add: isValidRating_char)

lemma year_check_iff:
  "(\<not> Number_isInteger y \<or> js_lt y (Fin 1888) \<or> js_gt y (Fin (of_int fullYear)))
     \<longleftrightarrow> \<not> isValidYear s2n fullYear (JNum y)"
  using bad_range_iff [of y 1888 fullYear] by (simp add: isValidYear_char)

text \<open>
  C2. The rating check accepts a value exactly when its coercion to a number is one of the
  integers 1 to 5. A string that coerces to NaN, null, undefined, NaN and 3.5 are
  rejected; the boolean true coerces to 1 and is accepted. The rate handler answers
  ``Invalid rating'' exactly when the id is a number and this check fails on the score of
  the body.
\<close>

theorem isValidRating_spec:
  "(isValidRating s2n v \<longleftrightarrow> (\<exists>k. Number s2n v = Fin (of_int k) \<and> 1 \<le> k \<and> k \<le> 5))
   \<and> (s2n s = NaN \<longrightarrow> \<not> isValidRating s2n (JStr s))
   \<and> \<not> isValidRating s2n JNull
   \<and> \<not> isValidRating s2n JUndefined
   \<and> \<not> isValidRating s2n (JNum NaN)
   \<and> \<not> isValidRating s2n (JNum (Fin (7 / 2)))
   \<and> isValidRating s2n (JBool True)
   \<and> (snd (post_api_movies_id_rate s2n d pid b) = (400, Error ''Invalid rating'')
        \<longleftrightarrow> \<not> isNaN (Number s2n (JStr pid)) \<and> \<not> isValidRating s2n (field b ''score''))"
proof -
  have a: "\<not> isValidRating s2n (JNum (Fin (7 / 2)))"
  proof
    assume "isValidRating s2n (JNum (Fin (7 / 2)))"
    then have "Number_isInteger (Fin (7 / 2))" by (simp add: isValidRating_def)
    moreover have "\<lfloor>7 / 2 :: rat\<rfloor> = 3" by (rule floor_unique) simp_all
    ultimately show False by (simp del: floor_divide_eq_div_numeral)
  qed
  have b: "snd (post_api_movies_id_rate s2n d pid b) = (400, Error ''Invalid rating'')
        \<longleftrightarrow> \<not> isNaN (Number s2n (JStr pid)) \<and> \<not> isValidRating s2n (field b ''score'')"
    unfolding post_api_movies_id_rate_def Let_def rate_check_iff
    by (simp split: option.splits prod.splits sum.splits)
  show ?thesis
    using a b by (simp add: isValidRating_char)
qed

theorem isValidRating_spec_witness:
  "(\<lambda>s. if s = ''5'' then Fin 5 else NaN) ''five'' = NaN
   \<and> \<not> isValidRating (\<lambda>s. if s = ''5'' then Fin 5 else NaN) (JStr ''five'')
   \<and> isValidRating (\<lambda>s. if s = ''5'' then Fin 5 else NaN) (JStr ''5'')"
  using isValidRating_spec [of "\<lambda>s. if s = ''5'' then Fin 5 else NaN" "JStr ''5''" "''five''"]
  by simp

lemma insertMovieSchema_fields:
  assumes "b ''title'' = Some (JStr t)" "b ''genre'' = Some (JStr g)"
    and "b ''year'' = Some (JNum (Fin (of_int y)))"
    and "- 2147483648 \<le> y" "y \<le> 2147483647"
  shows "insertMovieSchema izs b = Inr \<lparr>title = t, year = Fin (of_int y), genre = g\<rparr>"
  using assms
  by (cases izs) (simp_all add: insertMovieSchema_def field_def z_string_def z_number_def z_integer_def)

lemma post_api_movies_parsed:
  assumes "insertMovieSchema izs b = Inr parsed"
  shows "post_api_movies izs fullYear d b =
     (if isValidYear s2n fullYear (JNum (year parsed))
      then (fst (addMovie d \<lparr>title = title parsed, year = the_integer (year parsed), genre = genre parsed\<rparr>),
            (201, MovieBody (snd (addMovie d \<lparr>title = title parsed, year = the_integer (year parsed), genre = genre parsed\<rparr>))))
      else (d, (400, Error ''Invalid year'')))"
  using assms year_check_iff [of "year parsed" fullYear s2n]
  by (simp add: post_api_movies_def Let_def split: prod.splits)

lemma post_api_movies_year:
  assumes "b ''title'' = Some (JStr t)" "b ''genre'' = Some (JStr g)"
    and "b ''year'' = Some (JNum (Fin (of_int y)))"
    and "- 2147483648 \<le> y" "y \<le> 2147483647"
  shows "snd (post_api_movies izs fullYear d b) =
     (if 1888 \<le> y \<and> y \<le> fullYear
      then (201, MovieBody (snd (addMovie d \<lparr>title = t, year = y, genre = g\<rparr>)))
      else (400, Error ''Invalid year''))"
  using post_api_movies_parsed [OF insertMovieSchema_fields [OF assms], where s2n = "\<lambda>_. NaN"]
  by (simp add: isValidYear_char)

text \<open>
  C3. The year check accepts a value exactly when its coercion to a number is an integer
  from 1888 to the current year. On a body that passes the schema the create handler
  answers ``Invalid year'' exactly when this check fails; so 1887 is rejected, and with
  the clock at 1888 or later, 1888 and the current year are accepted and the year after
  the current one is rejected.
\<close>

theorem isValidYear_spec:
  "(isValidYear s2n fullYear v
      \<longleftrightarrow> (\<exists>k. Number s2n v = Fin (of_int k) \<and> 1888 \<le> k \<and> k \<le> fullYear))
   \<and> (insertMovieSchema izs b = Inr parsed \<longrightarrow>
        (snd (post_api_movies izs fullYear d b) = (400, Error ''Invalid year'')
           \<longleftrightarrow> \<not> isValidYear s2n fullYear (JNum (year parsed))))
   \<and> snd (post_api_movies izs fullYear d
            [''title'' \<mapsto> JStr t, ''year'' \<mapsto> JNum (Fin 1887), ''genre'' \<mapsto> JStr g])
        = (400, Error ''Invalid year'')
   \<and> (1888 \<le> fullYear \<and> fullYear < 2147483647 \<longrightarrow>
        fst (snd (post_api_movies izs fullYear d
            [''title'' \<mapsto> JStr t, ''year'' \<mapsto> JNum (Fin 1888), ''genre'' \<mapsto> JStr g])) = 201
      \<and> fst (snd (post_api_movies izs fullYear d
            [''title'' \<mapsto> JStr t, ''year'' \<mapsto> JNum (Fin (of_int fullYear)), ''genre'' \<mapsto> JStr g])) = 201
      \<and> snd (post_api_movies izs fullYear d
            [''title'' \<mapsto> JStr t, ''year'' \<mapsto> JNum (Fin (of_int (fullYear + 1))), ''genre'' \<mapsto> JStr g])
          = (400, Error ''Invalid year''))"
proof -
  have a: "insertMovieSchema izs b = Inr parsed \<longrightarrow>
        (snd (post_api_movies izs fullYear d b) = (400, Error ''Invalid year'')
           \<longleftrightarrow> \<not> isValidYear s2n fullYear (JNum (year parsed)))"
    by (simp add: post_api_movies_parsed [of izs b parsed fullYear d s2n])
  have b: "snd (post_api_movies izs fullYear d
            [''title'' \<mapsto> JStr t, ''year'' \<mapsto> JNum (Fin 1887), ''genre'' \<mapsto> JStr g])
        = (400, Error ''Invalid year'')"
    using post_api_movies_year [of _ t g 1887 izs fullYear d] by simp
  have c: "fst (snd (post_api_movies izs fullYear d
            [''title'' \<mapsto> JStr t, ''year'' \<mapsto> JNum (Fin 1888), ''genre'' \<mapsto> JStr g])) = 201"
    if "1888 \<le> fullYear"
    using that post_api_movies_year [of _ t g 1888 izs fullYear d] by simp
  have d: "fst (snd (post_api_movies izs fullYear d
            [''title'' \<mapsto> JStr t, ''year'' \<mapsto> JNum (Fin (of_int fullYear)), ''genre'' \<mapsto> JStr g])) = 201"
    if "1888 \<le> fullYear" "fullYear < 2147483647"
    using that post_api_movies_year [of _ t g fullYear izs fullYear d] by simp
  have e: "snd (post_api_movies izs fullYear d
            [''title'' \<mapsto> JStr t, ''year'' \<mapsto> JNum (Fin (of_int (fullYear + 1))), ''genre'' \<mapsto> JStr g])
          = (400, Error ''Invalid year'')"
    if "1888 \<le> fullYear" "fullYear < 2147483647"
    using that post_api_movies_year [of _ t g "fullYear + 1" izs fullYear d] by simp
  show ?thesis
    using a b c d e by (simp add: isValidYear_char)
qed


theorem isValidYear_spec_witness:
  "insertMovieSchema Int32
       [''title'' \<mapsto> JStr ''Casablanca'', ''year'' \<mapsto> JNum (Fin 1942), ''genre'' \<mapsto> JStr ''Drama'']
     = Inr \<lparr>title = ''Casablanca'', year = Fin 1942, genre = ''Drama''\<rparr>
   \<and> isValidYear (\<lambda>_. NaN) 2026 (JNum (Fin 1942))
   \<and> snd (post_api_movies Int32 2026
            \<lparr>movies = [], ratings = [], movies_id_seq = 0, ratings_id_seq = 0\<rparr>
            [''title'' \<mapsto> JStr ''Casablanca'', ''year'' \<mapsto> JNum (Fin 1942), ''genre'' \<mapsto> JStr ''Drama''])
        \<noteq> (400, Error ''Invalid year'')
   \<and> (1888 :: int) \<le> 2026 \<and> (2026 :: int) < 2147483647
   \<and> fst (snd (post_api_movies Int32 2026
            \<lparr>movies = [], ratings = [], movies_id_seq = 0, ratings_id_seq = 0\<rparr>
            [''title'' \<mapsto> JStr ''Casablanca'', ''year'' \<mapsto> JNum (Fin 2026), ''genre'' \<mapsto> JStr ''Drama''])) = 201
   \<and> snd (post_api_movies Int32 2026
            \<lparr>movies = [], ratings = [], movies_id_seq = 0, ratings_id_seq = 0\<rparr>
            [''title'' \<mapsto> JStr ''Casablanca'', ''year'' \<mapsto> JNum (Fin 2027), ''genre'' \<mapsto> JStr ''Drama''])
        = (400, Error ''Invalid year'')"
  using isValidYear_spec [where izs = Int32 and fullYear = 2026 and s2n = "\<lambda>_. NaN"
      and d = "\<lparr>movies = [], ratings = [], movies_id_seq = 0, ratings_id_seq = 0\<rparr>"
      and b = "[''title'' \<mapsto> JStr ''Casablanca'', ''year'' \<mapsto> JNum (Fin 1942), ''genre'' \<mapsto> JStr ''Drama'']"
      and parsed = "\<lparr>title = ''Casablanca'', year = Fin 1942, genre = ''Drama''\<rparr>"
      and v = "JNum (Fin 1942)" and t = "''Casablanca''" and g = "''Drama''"]
  by (simp add: insertMovieSchema_def field_def z_string_def z_number_def z_integer_def)

subsection \<open>Averages\<close>

lemma floor_rat_numeral [simp]:
  "\<lfloor>numeral a / numeral b :: rat\<rfloor> = numeral a div numeral b"
  "\<lfloor>1 / numeral b :: rat\<rfloor> = 1 div numeral b"
  using floor_divide_of_int_eq [of "numeral a" "numeral b", where ?'a = rat]
    floor_divide_of_int_eq [of 1 "numeral b", where ?'a = rat]
  by simp_all

lemma foldl_plus_sum_list: "foldl (+) a xs = a + sum_list (xs :: int list)"
  by (induction xs arbitrary: a) simp_all

lemma averageRating_eq_spec: "averageRating scores = spec_average scores"
  by (simp add: averageRating_def spec_average_def Math_round_def round_def foldl_plus_sum_list)

lemma sql_ROUND_nonneg: "0 \<le> v \<Longrightarrow> sql_ROUND v 1 = of_int (round (v * 10)) / 10"
  by (cases "v = 0") (simp_all add: sql_ROUND_def round_def)

lemma mean_nonneg:
  assumes "\<forall>s \<in> set scores. (0::int) \<le> s"
  shows "(0::rat) \<le> of_int (sum_list scores) / of_nat (length scores)"
proof -
  have "0 \<le> sum_list scores" using assms by (simp add: sum_list_nonneg)
  then show ?thesis by simp
qed

lemma stats_avg_eq_spec:
  assumes "\<forall>s \<in> set scores. (0::int) \<le> s"
  shows "stats_avg scores = spec_average scores"
  using sql_ROUND_nonneg [OF mean_nonneg [OF assms]]
  by (simp add: stats_avg_def sql_AVG_def sql_COALESCE_def spec_average_def)


lemma detail_avg:
  assumes "get_api_movies_id s2n newest_first d pid = (200, DetailBody m)"
  shows "avgRating m = averageRating (ratings_of m) \<and> totalRatings m = length (ratings_of m)"
  using assms
  by (auto simp: get_api_movies_id_def Let_def split: if_splits option.splits sum.splits)

text \<open>
  C1. The average of the detail view is round((sum / count) * 10) / 10 for every list of
  scores and 0 for the empty list; the four examples of the specification evaluate as
  it says. On a list that is not empty it is a multiple of 0.1 that lies at most 0.05
  above the mean and less than 0.05 below it. The detail handler returns this value for
  the scores it returns. The
  aggregate of the store, which rounds a tie away from zero, gives the same value
  whenever no score is negative.
\<close>

theorem averageRating_spec:
  "averageRating scores = spec_average scores
   \<and> averageRating [] = 0
   \<and> averageRating [5, 4, 4] = 43 / 10
   \<and> averageRating [4, 2] = 3
   \<and> averageRating [1, 2, 3] = 2
   \<and> (scores \<noteq> [] \<longrightarrow>
        (\<exists>k :: int. averageRating scores * 10 = of_int k)
      \<and> of_int (sum_list scores) / of_nat (length scores) - 1 / 20 < averageRating scores
      \<and> averageRating scores \<le> of_int (sum_list scores) / of_nat (length scores) + 1 / 20)
   \<and> (get_api_movies_id s2n newest_first d pid = (200, DetailBody m) \<longrightarrow> avgRating m = spec_average (ratings_of m))
   \<and> ((\<forall>s \<in> set scores. 0 \<le> s) \<longrightarrow> stats_avg scores = spec_average scores)"
proof -
  have a: "averageRating [5, 4, 4] = 43 / 10"
    by (simp add: averageRating_eq_spec spec_average_def round_def)
  have b: "averageRating [4, 2] = 3" 
    by (simp add: averageRating_eq_spec spec_average_def round_def)
  have c: "averageRating [1, 2, 3] = 2" 
    by (simp add: averageRating_eq_spec spec_average_def round_def)
  have e: "averageRating [] = 0" by (simp add: averageRating_def)
  have f: "(\<exists>k :: int. averageRating scores * 10 = of_int k)
      \<and> of_int (sum_list scores) / of_nat (length scores) - 1 / 20 < averageRating scores
      \<and> averageRating scores \<le> of_int (sum_list scores) / of_nat (length scores) + 1 / 20"
    if "scores \<noteq> []"
  proof -
    define x :: rat where "x = of_int (sum_list scores) / of_nat (length scores) * 10"
    have r: "averageRating scores = of_int \<lfloor>x + 1 / 2\<rfloor> / 10"
      using that by (simp add: averageRating_def Math_round_def foldl_plus_sum_list x_def)
    have "x - 1 / 2 < of_int \<lfloor>x + 1 / 2\<rfloor>" "of_int \<lfloor>x + 1 / 2\<rfloor> \<le> x + 1 / 2"
      by linarith+
    then have "x / 10 - 1 / 20 < averageRating scores" "averageRating scores \<le> x / 10 + 1 / 20"
      unfolding r by simp_all
    moreover have "x / 10 = of_int (sum_list scores) / of_nat (length scores)"
      by (simp add: x_def)
    moreover have "averageRating scores * 10 = of_int \<lfloor>x + 1 / 2\<rfloor>"
      unfolding r by simp
    ultimately show ?thesis by (simp only:) blast
  qed
  show ?thesis
    using a b c e f detail_avg [of s2n newest_first d pid m] stats_avg_eq_spec [of scores]
    by (simp add: averageRating_eq_spec)
qed


theorem averageRating_spec_witness:
  "get_api_movies_id (\<lambda>s. if s = ''1'' then Fin 1 else NaN) rev
       \<lparr>movies = [\<lparr>title = ''The Godfather'', year = 1972, genre = ''Crime'', movie_id = 1\<rparr>],
        ratings = [\<lparr>rating_id = 1, movieId = 1, score = 5\<rparr>,
                   \<lparr>rating_id = 2, movieId = 1, score = 4\<rparr>,
                   \<lparr>rating_id = 3, movieId = 1, score = 4\<rparr>],
        movies_id_seq = 1, ratings_id_seq = 3\<rparr> ''1''
     = (200, DetailBody \<lparr>title = ''The Godfather'', year = 1972, genre = ''Crime'', movie_id = 1,
                          avgRating = 43 / 10, totalRatings = 3, ratings_of = [4, 4, 5]\<rparr>)
   \<and> spec_average [4, 4, 5] = 43 / 10
   \<and> [5, 4, 4 :: int] \<noteq> []
   \<and> 13 / 3 - 1 / 20 < averageRating [5, 4, 4] \<and> averageRating [5, 4, 4] \<le> 13 / 3 + 1 / 20
   \<and> (0 :: int) \<le> 5 \<and> (0 :: int) \<le> 4
   \<and> stats_avg [5, 4, 4] = 43 / 10"
  using averageRating_spec [where scores = "[5, 4, 4]" and pid = "''1''"
      and s2n = "\<lambda>s. if s = ''1'' then Fin 1 else NaN" and newest_first = rev
      and d = "\<lparr>movies = [\<lparr>title = ''The Godfather'', year = 1972, genre = ''Crime'', movie_id = 1\<rparr>],
        ratings = [\<lparr>rating_id = 1, movieId = 1, score = 5\<rparr>,
                   \<lparr>rating_id = 2, movieId = 1, score = 4\<rparr>,
                   \<lparr>rating_id = 3, movieId = 1, score = 4\<rparr>],
        movies_id_seq = 1, ratings_id_seq = 3\<rparr>"
      and m = "\<lparr>title = ''The Godfather'', year = 1972, genre = ''Crime'', movie_id = 1,
                          avgRating = 43 / 10, totalRatings = 3, ratings_of = [4, 4, 5]\<rparr>"]
  by (simp add: get_api_movies_id_def getMovieById_def getRatingsForMovie_def eq_col_def isNaN_def
      int4_param_def
      Let_def averageRating_def Math_round_def spec_average_def round_def
      stats_avg_def sql_AVG_def sql_ROUND_def sql_COALESCE_def)


subsection \<open>Creating a movie\<close>

lemma addMovie_result:
  "snd (addMovie d v) = \<lparr>title = title v, year = year v, genre = genre v, movie_id = movies_id_seq d + 1\<rparr>"
  "movies (fst (addMovie d v)) = movies d @ [snd (addMovie d v)]"
  "ratings (fst (addMovie d v)) = ratings d"
  by (simp_all add: addMovie_def insert_movie_def Let_def)

lemma post_api_movies_invalid_fields:
  assumes "insertMovieSchema izs b = Inl e"
  shows "post_api_movies izs fullYear d b = (d, (400, Error ''Invalid fields''))"
  using assms by (cases e) (simp add: post_api_movies_def)

text \<open>
  C6. The create handler validates the schema before the year. A body that fails the
  schema is answered 400 ``Invalid fields'', also when its year is out of range; a body
  that passes the schema and fails the year check is answered 400 ``Invalid year''; both
  leave the store unchanged. A body that passes both is answered 201 with the row that has
  been appended to the movies.
\<close>

theorem create_handler_order:
  "(insertMovieSchema izs b = Inl e \<longrightarrow>
      post_api_movies izs fullYear d b = (d, (400, Error ''Invalid fields'')))
   \<and> (insertMovieSchema izs b = Inl e \<and> \<not> isValidYear s2n fullYear (field b ''year'') \<longrightarrow>
      post_api_movies izs fullYear d b = (d, (400, Error ''Invalid fields'')))
   \<and> (insertMovieSchema izs b = Inr parsed \<and> \<not> isValidYear s2n fullYear (JNum (year parsed)) \<longrightarrow>
      post_api_movies izs fullYear d b = (d, (400, Error ''Invalid year'')))
   \<and> (insertMovieSchema izs b = Inr parsed \<and> isValidYear s2n fullYear (JNum (year parsed)) \<longrightarrow>
      (\<exists>d' movie.
          post_api_movies izs fullYear d b = (d', (201, MovieBody movie))
        \<and> title movie = title parsed \<and> genre movie = genre parsed
        \<and> Fin (of_int (year movie)) = year parsed
        \<and> movie_id movie = movies_id_seq d + 1
        \<and> movies d' = movies d @ [movie] \<and> ratings d' = ratings d))"
proof -
  have "Fin (of_int (the_integer (year parsed))) = year parsed"
    if "isValidYear s2n fullYear (JNum (year parsed))"
    using that by (auto simp: isValidYear_char)
  then show ?thesis
    using post_api_movies_invalid_fields [of izs b e fullYear d]
      post_api_movies_parsed [of izs b parsed fullYear d s2n]
    by (auto simp: addMovie_result)
qed

theorem create_handler_order_witness:
  "insertMovieSchema Plain [''year'' \<mapsto> JNum (Fin 1887), ''genre'' \<mapsto> JStr ''Drama''] = Inl ZodError
   \<and> \<not> isValidYear (\<lambda>_. NaN) 2026 (field [''year'' \<mapsto> JNum (Fin 1887), ''genre'' \<mapsto> JStr ''Drama''] ''year'')
   \<and> post_api_movies Plain 2026 \<lparr>movies = [], ratings = [], movies_id_seq = 0, ratings_id_seq = 0\<rparr> [''year'' \<mapsto> JNum (Fin 1887), ''genre'' \<mapsto> JStr ''Drama'']
       = (\<lparr>movies = [], ratings = [], movies_id_seq = 0, ratings_id_seq = 0\<rparr>, (400, Error ''Invalid fields''))
   \<and> insertMovieSchema Plain [''title'' \<mapsto> JStr ''Early Film'', ''year'' \<mapsto> JNum (Fin 1887), ''genre'' \<mapsto> JStr ''Drama'']
       = Inr \<lparr>title = ''Early Film'', year = Fin 1887, genre = ''Drama''\<rparr>
   \<and> \<not> isValidYear (\<lambda>_. NaN) 2026 (JNum (Fin 1887))
   \<and> post_api_movies Plain 2026 \<lparr>movies = [], ratings = [], movies_id_seq = 0, ratings_id_seq = 0\<rparr> [''title'' \<mapsto> JStr ''Early Film'', ''year'' \<mapsto> JNum (Fin 1887), ''genre'' \<mapsto> JStr ''Drama'']
       = (\<lparr>movies = [], ratings = [], movies_id_seq = 0, ratings_id_seq = 0\<rparr>, (400, Error ''Invalid year''))
   \<and> insertMovieSchema Plain [''title'' \<mapsto> JStr ''Casablanca'', ''year'' \<mapsto> JNum (Fin 1942), ''genre'' \<mapsto> JStr ''Drama'']
       = Inr \<lparr>title = ''Casablanca'', year = Fin 1942, genre = ''Drama''\<rparr>
   \<and> isValidYear (\<lambda>_. NaN) 2026 (JNum (Fin 1942))
   \<and> post_api_movies Plain 2026 \<lparr>movies = [], ratings = [], movies_id_seq = 0, ratings_id_seq = 0\<rparr> [''title'' \<mapsto> JStr ''Casablanca'', ''year'' \<mapsto> JNum (Fin 1942), ''genre'' \<mapsto> JStr ''Drama'']
       = (\<lparr>movies = [\<lparr>title = ''Casablanca'', year = 1942, genre = ''Drama'', movie_id = 1\<rparr>],
           ratings = [], movies_id_seq = 1, ratings_id_seq = 0\<rparr>,
          (201, MovieBody \<lparr>title = ''Casablanca'', year = 1942, genre = ''Drama'', movie_id = 1\<rparr>))"
  using create_handler_order [where izs = Plain and fullYear = 2026 and s2n = "\<lambda>_. NaN"
      and d = "\<lparr>movies = [], ratings = [], movies_id_seq = 0, ratings_id_seq = 0\<rparr>" and e = ZodError and b = "[''year'' \<mapsto> JNum (Fin 1887), ''genre'' \<mapsto> JStr ''Drama'']"]
    create_handler_order [where izs = Plain and fullYear = 2026 and s2n = "\<lambda>_. NaN"
      and d = "\<lparr>movies = [], ratings = [], movies_id_seq = 0, ratings_id_seq = 0\<rparr>" and b = "[''title'' \<mapsto> JStr ''Early Film'', ''year'' \<mapsto> JNum (Fin 1887), ''genre'' \<mapsto> JStr ''Drama'']"
      and parsed = "\<lparr>title = ''Early Film'', year = Fin 1887, genre = ''Drama''\<rparr>"]
    create_handler_order [where izs = Plain and fullYear = 2026 and s2n = "\<lambda>_. NaN"
      and d = "\<lparr>movies = [], ratings = [], movies_id_seq = 0, ratings_id_seq = 0\<rparr>" and b = "[''title'' \<mapsto> JStr ''Casablanca'', ''year'' \<mapsto> JNum (Fin 1942), ''genre'' \<mapsto> JStr ''Drama'']"
      and parsed = "\<lparr>title = ''Casablanca'', year = Fin 1942, genre = ''Drama''\<rparr>"]
  by (simp add: insertMovieSchema_def field_def z_string_def z_number_def z_integer_def
      isValidYear_def post_api_movies_def addMovie_def insert_movie_def Let_def)


subsection \<open>The insert schema\<close>

lemma insertMovieSchema_ignores_other_keys:
  assumes "k \<noteq> ''title''" "k \<noteq> ''year''" "k \<noteq> ''genre''"
  shows "insertMovieSchema izs (b(k \<mapsto> v)) = insertMovieSchema izs b"
proof -
  have "field (b(k \<mapsto> v)) k' = field b k'" if "k \<noteq> k'" for k'
    using that by (simp add: field_def)
  with assms have "field (b(k \<mapsto> v)) ''title'' = field b ''title''"
    "field (b(k \<mapsto> v)) ''year'' = field b ''year''"
    "field (b(k \<mapsto> v)) ''genre'' = field b ''genre''"
    by blast+
  then show ?thesis
    by (simp only: insertMovieSchema_def)
qed

lemma insertMovieSchema_needs_fields:
  assumes "insertMovieSchema izs b = Inr parsed"
  shows "b ''title'' = Some (JStr (title parsed)) \<and> b ''genre'' = Some (JStr (genre parsed))
     \<and> b ''year'' = Some (JNum (year parsed)) \<and> year parsed \<noteq> NaN"
  using assms
  by (auto simp: insertMovieSchema_def field_def z_string_def z_integer_def z_number_def
      split: option.splits jsval.splits if_splits int_schema.splits)

text \<open>
  C4. The schema requires a title and a genre that are strings and a year that is a
  number, drops every other key, and has no id in its output. It puts no lower bound on
  the length of a string: a body whose title or genre is the empty string passes, and the
  create handler inserts it and answers 201.
\<close>

theorem insertMovieSchema_accepts_empty_strings:
  "insertMovieSchema izs [''title'' \<mapsto> JStr '''', ''year'' \<mapsto> JNum (Fin 1942), ''genre'' \<mapsto> JStr ''Drama'']
     = Inr \<lparr>title = '''', year = Fin 1942, genre = ''Drama''\<rparr>
   \<and> insertMovieSchema izs [''title'' \<mapsto> JStr ''Casablanca'', ''year'' \<mapsto> JNum (Fin 1942), ''genre'' \<mapsto> JStr '''']
     = Inr \<lparr>title = ''Casablanca'', year = Fin 1942, genre = ''''\<rparr>
   \<and> snd (post_api_movies izs 2026 d [''title'' \<mapsto> JStr '''', ''year'' \<mapsto> JNum (Fin 1942), ''genre'' \<mapsto> JStr ''Drama''])
     = (201, MovieBody \<lparr>title = '''', year = 1942, genre = ''Drama'', movie_id = movies_id_seq d + 1\<rparr>)"
  by (cases izs)
    (simp_all add: insertMovieSchema_def field_def z_string_def z_number_def z_integer_def
      post_api_movies_def addMovie_def insert_movie_def Let_def)

theorem insertMovieSchema_accepts_empty_strings_witness:
  "insertMovieSchema Int32 [''title'' \<mapsto> JStr '''', ''year'' \<mapsto> JNum (Fin 1942), ''genre'' \<mapsto> JStr ''Drama'']
     = Inr \<lparr>title = '''', year = Fin 1942, genre = ''Drama''\<rparr>
   \<and> insertMovieSchema Int32 [''title'' \<mapsto> JStr ''Casablanca'', ''year'' \<mapsto> JNum (Fin 1942), ''genre'' \<mapsto> JStr '''']
     = Inr \<lparr>title = ''Casablanca'', year = Fin 1942, genre = ''''\<rparr>
   \<and> snd (post_api_movies Int32 2026 \<lparr>movies = [], ratings = [], movies_id_seq = 0, ratings_id_seq = 0\<rparr>
          [''title'' \<mapsto> JStr '''', ''year'' \<mapsto> JNum (Fin 1942), ''genre'' \<mapsto> JStr ''Drama''])
     = (201, MovieBody \<lparr>title = '''', year = 1942, genre = ''Drama'', movie_id = 1\<rparr>)"
  using insertMovieSchema_accepts_empty_strings [where izs = Int32
      and d = "\<lparr>movies = [], ratings = [], movies_id_seq = 0, ratings_id_seq = 0\<rparr>"]
  by simp

subsection \<open>Seeding\<close>

lemma seedMovies_nonempty:
  assumes "movies d \<noteq> []"
  shows "seedMovies d = Inr d"
  using assms by (cases "movies d") (simp_all add: seedMovies_def)

lemma seedMovies_empty:
  assumes "movies d = []"
  shows "seedMovies d = Inr (d\<lparr>
      movies := map (\<lambda>(k, v). \<lparr>title = title v, year = year v, genre = genre v,
                         movie_id = movies_id_seq d + 1 + int k\<rparr>) (enumerate 0 seedData),
      ratings := ratings d @ map (\<lambda>(j, (k, s)). \<lparr>rating_id = ratings_id_seq d + 1 + int j,
                         movieId = movies_id_seq d + 1 + int k, score = s\<rparr>) (enumerate 0 sampleRatings),
      movies_id_seq := movies_id_seq d + 10,
      ratings_id_seq := ratings_id_seq d + 23\<rparr>)"
  using assms
  by (simp add: seedMovies_def seedData_def sampleRatings_def insert_movie_def insert_rating_def
      int4_def Let_def enumerate_eq_zip upt_rec)


lemma seedMovies_returns: "\<exists>d'. seedMovies d = Inr d'"
  using seedMovies_nonempty [of d] seedMovies_empty [of d] by (cases "movies d = []") auto

lemma seedMovies_result_nonempty:
  assumes "seedMovies d = Inr d'"
  shows "movies d' \<noteq> []"
proof (cases "movies d = []")
  case True
  from seedMovies_empty [OF True] assms show ?thesis
    by (auto simp: seedData_def)
next
  case False
  with seedMovies_nonempty [OF False] assms show ?thesis by simp
qed

lemma seedMovies_catalog:
  assumes "movies d = []" "seedMovies d = Inr d'"
  shows "map (\<lambda>m. \<lparr>title = title m, year = year m, genre = genre m\<rparr>) (movies d') = seedData"
    and "map movie_id (movies d') = map (\<lambda>k. movies_id_seq d + 1 + int k) [0..<10]"
    and "length (movies d') = 10"
    and "ratings d' = ratings d @ map (\<lambda>(j, (k, s)). \<lparr>rating_id = ratings_id_seq d + 1 + int j,
                         movieId = movies_id_seq d + 1 + int k, score = s\<rparr>) (enumerate 0 sampleRatings)"
    and "length (ratings d') = length (ratings d) + 23"
  using seedMovies_empty [OF assms(1)] assms(2)
  by (auto simp: seedData_def sampleRatings_def enumerate_eq_zip upt_rec)

text \<open>
  C8. \<open>seedMovies\<close> always returns. When a movie exists it changes nothing. On an
  empty movies table it inserts the catalogue of ten films, in order and with
  consecutive ids, and then the twenty-three sample ratings, each for the film at its
  position in the catalogue. Run again on its own result it changes nothing, so the
  numbers of movie and rating rows stay as they are.
\<close>

theorem seedMovies_idempotent:
  "(\<exists>d'. seedMovies d = Inr d')
   \<and> (movies d \<noteq> [] \<longrightarrow> seedMovies d = Inr d)
   \<and> (movies d = [] \<and> seedMovies d = Inr d' \<longrightarrow>
        map (\<lambda>m. \<lparr>title = title m, year = year m, genre = genre m\<rparr>) (movies d') = seedData
      \<and> map movie_id (movies d') = map (\<lambda>k. movies_id_seq d + 1 + int k) [0..<10]
      \<and> length (movies d') = 10
      \<and> ratings d' = ratings d @ map (\<lambda>(j, (k, s)). \<lparr>rating_id = ratings_id_seq d + 1 + int j,
                         movieId = movies_id_seq d + 1 + int k, score = s\<rparr>) (enumerate 0 sampleRatings)
      \<and> length (ratings d') = length (ratings d) + 23)
   \<and> (seedMovies d = Inr d' \<longrightarrow>
        seedMovies d' = Inr d'
      \<and> (\<forall>d''. seedMovies d' = Inr d'' \<longrightarrow>
            length (movies d'') = length (movies d') \<and> length (ratings d'') = length (ratings d')))"
proof -
  have "seedMovies d' = Inr d'" if "seedMovies d = Inr d'"
    using seedMovies_nonempty [OF seedMovies_result_nonempty [OF that]] .
  then show ?thesis
    using seedMovies_returns [of d] seedMovies_nonempty [of d] seedMovies_catalog [of d d']
    by auto
qed

theorem seedMovies_idempotent_witness:
  "movies \<lparr>movies = [\<lparr>title = ''Casablanca'', year = 1942, genre = ''Drama'', movie_id = 1\<rparr>], ratings = [], movies_id_seq = 1, ratings_id_seq = 0\<rparr> \<noteq> []
   \<and> seedMovies \<lparr>movies = [\<lparr>title = ''Casablanca'', year = 1942, genre = ''Drama'', movie_id = 1\<rparr>], ratings = [], movies_id_seq = 1, ratings_id_seq = 0\<rparr>
       = Inr \<lparr>movies = [\<lparr>title = ''Casablanca'', year = 1942, genre = ''Drama'', movie_id = 1\<rparr>], ratings = [], movies_id_seq = 1, ratings_id_seq = 0\<rparr>
   \<and> movies \<lparr>movies = [], ratings = [], movies_id_seq = 0, ratings_id_seq = 0\<rparr> = []
   \<and> (\<exists>d'. seedMovies \<lparr>movies = [], ratings = [], movies_id_seq = 0, ratings_id_seq = 0\<rparr> = Inr d'
         \<and> movies d' \<noteq> []
         \<and> map title (movies d')
             = [''The Godfather'', ''Pulp Fiction'', ''The Shawshank Redemption'', ''Schindler's List'',
                ''2001: A Space Odyssey'', ''Blade Runner'', ''Chinatown'', ''Mulholland Drive'',
                ''Singin' in the Rain'', ''Sunset Boulevard'']
         \<and> map movie_id (movies d') = [1, 2, 3, 4, 5, 6, 7, 8, 9, 10]
         \<and> length (ratings d') = 23
         \<and> seedMovies d' = Inr d')"
proof -
  have n: "seedMovies \<lparr>movies = [\<lparr>title = ''Casablanca'', year = 1942, genre = ''Drama'', movie_id = 1\<rparr>], ratings = [], movies_id_seq = 1, ratings_id_seq = 0\<rparr>
       = Inr \<lparr>movies = [\<lparr>title = ''Casablanca'', year = 1942, genre = ''Drama'', movie_id = 1\<rparr>], ratings = [], movies_id_seq = 1, ratings_id_seq = 0\<rparr>"
    using seedMovies_idempotent [of "\<lparr>movies = [\<lparr>title = ''Casablanca'', year = 1942, genre = ''Drama'', movie_id = 1\<rparr>], ratings = [], movies_id_seq = 1, ratings_id_seq = 0\<rparr>"] by simp
  obtain d' where d': "seedMovies \<lparr>movies = [], ratings = [], movies_id_seq = 0, ratings_id_seq = 0\<rparr> = Inr d'"
    using seedMovies_idempotent [of "\<lparr>movies = [], ratings = [], movies_id_seq = 0, ratings_id_seq = 0\<rparr>"] by blast
  from seedMovies_idempotent [of "\<lparr>movies = [], ratings = [], movies_id_seq = 0, ratings_id_seq = 0\<rparr>" d'] d'
  have c: "map (\<lambda>m. \<lparr>title = title m, year = year m, genre = genre m\<rparr>) (movies d') = seedData"
    and r: "length (ratings d') = 23" and i: "seedMovies d' = Inr d'" and l: "length (movies d') = 10"
    and k0: "map movie_id (movies d') = map (\<lambda>k. 0 + 1 + int k) [0..<10]"
    by (simp_all add: sampleRatings_def)
  have "map (\<lambda>k. 0 + 1 + int k) [0..<10] = [1, 2, 3, 4, 5, 6, 7, 8, 9, 10]"
    by code_simp
  with k0 have k: "map movie_id (movies d') = [1, 2, 3, 4, 5, 6, 7, 8, 9, 10]" by simp
  from c have "map title (map (\<lambda>m. \<lparr>title = title m, year = year m, genre = genre m\<rparr>) (movies d'))
      = map title seedData" by simp
  then have t: "map title (movies d') = map title seedData" by (simp add: comp_def)
  from l have "movies d' \<noteq> []" by auto
  with n d' r i t k show ?thesis by (simp add: seedData_def)
qed


subsection \<open>The order of the checks in the rate handler\<close>

lemma int4_param_iff: "int4_param x \<longleftrightarrow> (\<exists>k. x = Fin (of_int k) \<and> int4 k)"
  using valid_range_iff [of x "- 2147483648" 2147483647]
  by (simp add: int4_param_def int4_def)

lemma getMovieById_Some:
  assumes "getMovieById d i = Inr (Some m)"
  shows "i = Fin (of_int (movie_id m)) \<and> m \<in> set (movies d) \<and> int4_param i"
proof -
  from assms have p: "int4_param i"
    by (simp add: getMovieById_def split: if_splits)
  with assms obtain ms where "filter (\<lambda>m. eq_col (movie_id m) i) (movies d) = m # ms"
    by (auto simp: getMovieById_def split: list.splits)
  then have "m \<in> set (filter (\<lambda>m. eq_col (movie_id m) i) (movies d))" by simp
  with p show ?thesis by (simp add: eq_col_def)
qed

lemma getMovieById_None_iff:
  "getMovieById d i = Inr None
     \<longleftrightarrow> int4_param i \<and> \<not> list_ex (\<lambda>m. eq_col (movie_id m) i) (movies d)"
proof -
  have "(filter (\<lambda>m. eq_col (movie_id m) i) (movies d) = [])
      \<longleftrightarrow> \<not> list_ex (\<lambda>m. eq_col (movie_id m) i) (movies d)"
    by (simp add: list_ex_iff filter_empty_conv)
  then show ?thesis
    by (cases "filter (\<lambda>m. eq_col (movie_id m) i) (movies d)") (simp_all add: getMovieById_def)
qed

lemma getMovieById_error_iff:
  "getMovieById d i = Inl e \<longleftrightarrow> e = BadParameter \<and> \<not> int4_param i"
  by (auto simp: getMovieById_def)

lemma getMovieById_non_integer:
  assumes "r \<notin> \<int>"
  shows "getMovieById d (Fin r) = Inl BadParameter"
    and "\<not> list_ex (\<lambda>m. eq_col (movie_id m) (Fin r)) (movies d)"
proof -
  have "\<not> int4_param (Fin r)"
    using assms by (auto simp: int4_param_iff)
  then show "getMovieById d (Fin r) = Inl BadParameter"
    by (simp add: getMovieById_def)
  have "\<not> eq_col c (Fin r)" for c
    using assms by (auto simp: eq_col_def)
  then show "\<not> list_ex (\<lambda>m. eq_col (movie_id m) (Fin r)) (movies d)"
    by (simp add: list_ex_iff)
qed

lemma addRating_exists:
  assumes "list_ex (\<lambda>m. movie_id m = i) (movies d)" "int4 s"
  shows "addRating d i s =
     Inr (d\<lparr>ratings := ratings d @ [\<lparr>rating_id = ratings_id_seq d + 1, movieId = i, score = s\<rparr>],
             ratings_id_seq := ratings_id_seq d + 1\<rparr>,
          \<lparr>stats_avgRating = sql_ROUND (of_int (sum_list (scores_of d i @ [s]))
                                          / of_nat (length (scores_of d i @ [s]))) 1,
           stats_totalRatings = length (scores_of d i) + 1\<rparr>)"
  using assms
  by (simp add: addRating_def insert_rating_def Let_def scores_of_def sql_AVG_def)

lemma addRating_missing:
  assumes "\<not> list_ex (\<lambda>m. movie_id m = i) (movies d)" "int4 s"
  shows "addRating d i s = Inl ForeignKeyViolation"
  using assms by (simp add: addRating_def insert_rating_def)

lemma post_api_movies_id_rate_cases:
  "post_api_movies_id_rate s2n d pid b =
     (if isNaN (Number s2n (JStr pid)) then (d, (400, Error ''Invalid ID''))
      else if \<not> isValidRating s2n (field b ''score'') then (d, (400, Error ''Invalid rating''))
      else (case getMovieById d (Number s2n (JStr pid)) of
              Inl e \<Rightarrow> (d, (500, Error ''Failed to add rating''))
            | Inr None \<Rightarrow> (d, (404, Error ''Not found''))
            | Inr (Some movie) \<Rightarrow>
                (case addRating d (the_integer (Number s2n (JStr pid)))
                        (the_integer (Number s2n (field b ''score''))) of
                   Inl e \<Rightarrow> (d, (500, Error ''Failed to add rating''))
                 | Inr (d', result) \<Rightarrow> (d', (200, StatsBody result)))))"
  unfolding post_api_movies_id_rate_def Let_def rate_check_iff
  by (simp split: option.splits prod.splits sum.splits)

lemma post_api_movies_id_rate_found:
  assumes "\<not> isNaN (Number s2n (JStr pid))" "isValidRating s2n (field b ''score'')"
    and "getMovieById d (Number s2n (JStr pid)) = Inr (Some m)"
  shows "post_api_movies_id_rate s2n d pid b =
     (d\<lparr>ratings := ratings d @ [\<lparr>rating_id = ratings_id_seq d + 1, movieId = movie_id m,
                                   score = the_integer (Number s2n (field b ''score''))\<rparr>],
        ratings_id_seq := ratings_id_seq d + 1\<rparr>,
      (200, StatsBody (snd (projr (addRating d (movie_id m) (the_integer (Number s2n (field b ''score''))))))))"
    and "addRating d (movie_id m) (the_integer (Number s2n (field b ''score'')))
      = Inr (fst (post_api_movies_id_rate s2n d pid b),
             snd (projr (addRating d (movie_id m) (the_integer (Number s2n (field b ''score''))))))"
    and "m \<in> set (movies d)"
    and "Fin (of_int (movie_id m)) = Number s2n (JStr pid)"
    and "Fin (of_int (the_integer (Number s2n (field b ''score'')))) = Number s2n (field b ''score'')"
    and "1 \<le> the_integer (Number s2n (field b ''score''))"
    and "the_integer (Number s2n (field b ''score'')) \<le> 5"
proof -
  let ?k = "the_integer (Number s2n (field b ''score''))"
  from getMovieById_Some [OF assms(3)]
  have i: "Number s2n (JStr pid) = Fin (of_int (movie_id m))" and m: "m \<in> set (movies d)"
    by simp_all
  from assms(2) have k: "Number s2n (field b ''score'') = Fin (of_int ?k)" "1 \<le> ?k" "?k \<le> 5"
    by (auto simp: isValidRating_char)
  have ex: "list_ex (\<lambda>x. movie_id x = movie_id m) (movies d)"
    using m by (auto simp: list_ex_iff)
  have k4: "int4 ?k" using k(2,3) by (simp add: int4_def)
  note ar = addRating_exists [OF ex k4]
  have ti: "the_integer (s2n pid) = movie_id m" using i by simp
  show "post_api_movies_id_rate s2n d pid b =
     (d\<lparr>ratings := ratings d @ [\<lparr>rating_id = ratings_id_seq d + 1, movieId = movie_id m,
                                   score = ?k\<rparr>],
        ratings_id_seq := ratings_id_seq d + 1\<rparr>,
      (200, StatsBody (snd (projr (addRating d (movie_id m) ?k)))))"
    using assms by (simp add: post_api_movies_id_rate_cases ti ar)
  then show "addRating d (movie_id m) ?k
      = Inr (fst (post_api_movies_id_rate s2n d pid b), snd (projr (addRating d (movie_id m) ?k)))"
    by (simp add: ar)
  show "m \<in> set (movies d)" by (rule m)
  show "Fin (of_int (movie_id m)) = Number s2n (JStr pid)" by (simp only: i)
  show "Fin (of_int ?k) = Number s2n (field b ''score'')" by (rule k(1) [symmetric])
  show "1 \<le> ?k" "?k \<le> 5" by (rule k)+
qed

text \<open>
  C5, amended. The rate handler checks in a fixed order. An id that is not a number is
  answered 400 ``Invalid ID'' whatever the score is; then a score that fails the rating
  check is answered 400 ``Invalid rating'' whether or not the movie exists; then the movie
  is looked up. The store refuses an id that is not a 32-bit integer, and the answer is
  500 ``Failed to add rating''; an id that is one and matches no movie is answered 404
  ``Not found''. In all these cases, and whenever the status is not 200, the store is
  returned unchanged. Only when all checks pass is one rating row appended, for the movie
  found and with the score sent, and the answer is 200 with the statistics that
  \<open>addRating\<close> returns.
\<close>

theorem rate_handler_order:
  "(isNaN (Number s2n (JStr pid)) \<longrightarrow>
      post_api_movies_id_rate s2n d pid b = (d, (400, Error ''Invalid ID'')))
   \<and> (\<not> isNaN (Number s2n (JStr pid)) \<and> \<not> isValidRating s2n (field b ''score'') \<longrightarrow>
      post_api_movies_id_rate s2n d pid b = (d, (400, Error ''Invalid rating'')))
   \<and> (\<not> isNaN (Number s2n (JStr pid)) \<and> isValidRating s2n (field b ''score'')
        \<and> \<not> int4_param (Number s2n (JStr pid)) \<longrightarrow>
      getMovieById d (Number s2n (JStr pid)) = Inl BadParameter
      \<and> post_api_movies_id_rate s2n d pid b = (d, (500, Error ''Failed to add rating'')))
   \<and> (\<not> isNaN (Number s2n (JStr pid)) \<and> isValidRating s2n (field b ''score'')
        \<and> int4_param (Number s2n (JStr pid))
        \<and> \<not> list_ex (\<lambda>m. eq_col (movie_id m) (Number s2n (JStr pid))) (movies d) \<longrightarrow>
      getMovieById d (Number s2n (JStr pid)) = Inr None
      \<and> post_api_movies_id_rate s2n d pid b = (d, (404, Error ''Not found'')))
   \<and> (\<not> isNaN (Number s2n (JStr pid)) \<and> isValidRating s2n (field b ''score'')
        \<and> getMovieById d (Number s2n (JStr pid)) = Inr (Some m) \<longrightarrow>
      (\<exists>st. addRating d (movie_id m) (the_integer (Number s2n (field b ''score'')))
              = Inr (fst (post_api_movies_id_rate s2n d pid b), st)
            \<and> snd (post_api_movies_id_rate s2n d pid b) = (200, StatsBody st))
      \<and> ratings (fst (post_api_movies_id_rate s2n d pid b))
        = ratings d @ [\<lparr>rating_id = ratings_id_seq d + 1, movieId = movie_id m,
                         score = the_integer (Number s2n (field b ''score''))\<rparr>]
      \<and> movies (fst (post_api_movies_id_rate s2n d pid b)) = movies d
      \<and> m \<in> set (movies d)
      \<and> Fin (of_int (movie_id m)) = Number s2n (JStr pid)
      \<and> Fin (of_int (the_integer (Number s2n (field b ''score'')))) = Number s2n (field b ''score'')
      \<and> 1 \<le> the_integer (Number s2n (field b ''score''))
      \<and> the_integer (Number s2n (field b ''score'')) \<le> 5)
   \<and> (fst (snd (post_api_movies_id_rate s2n d pid b)) = 200 \<longrightarrow>
      \<not> isNaN (Number s2n (JStr pid)) \<and> isValidRating s2n (field b ''score'')
      \<and> (\<exists>m. getMovieById d (Number s2n (JStr pid)) = Inr (Some m)))
   \<and> (fst (snd (post_api_movies_id_rate s2n d pid b)) \<noteq> 200 \<longrightarrow>
      fst (post_api_movies_id_rate s2n d pid b) = d)"
proof -
  let ?i = "Number s2n (JStr pid)"
  let ?p = "post_api_movies_id_rate s2n d pid b"
  have c3: "getMovieById d ?i = Inl BadParameter \<and> ?p = (d, (500, Error ''Failed to add rating''))"
    if "\<not> isNaN ?i" "isValidRating s2n (field b ''score'')" "\<not> int4_param ?i"
  proof -
    have "getMovieById d ?i = Inl BadParameter"
      using that(3) by (simp add: getMovieById_error_iff del: Number.simps)
    with that(1,2) show ?thesis
      by (simp only: post_api_movies_id_rate_cases) simp
  qed
  have c4: "getMovieById d ?i = Inr None \<and> ?p = (d, (404, Error ''Not found''))"
    if "\<not> isNaN ?i" "isValidRating s2n (field b ''score'')" "int4_param ?i"
      "\<not> list_ex (\<lambda>m. eq_col (movie_id m) ?i) (movies d)"
  proof -
    have "getMovieById d ?i = Inr None"
      using that(3,4) by (simp add: getMovieById_None_iff del: Number.simps)
    with that(1,2) show ?thesis
      by (simp only: post_api_movies_id_rate_cases) simp
  qed
  have c5: "(\<exists>st. addRating d (movie_id m) (the_integer (Number s2n (field b ''score'')))
              = Inr (fst ?p, st) \<and> snd ?p = (200, StatsBody st))
      \<and> ratings (fst ?p)
        = ratings d @ [\<lparr>rating_id = ratings_id_seq d + 1, movieId = movie_id m,
                         score = the_integer (Number s2n (field b ''score''))\<rparr>]
      \<and> movies (fst ?p) = movies d
      \<and> m \<in> set (movies d)
      \<and> Fin (of_int (movie_id m)) = ?i
      \<and> Fin (of_int (the_integer (Number s2n (field b ''score'')))) = Number s2n (field b ''score'')
      \<and> 1 \<le> the_integer (Number s2n (field b ''score''))
      \<and> the_integer (Number s2n (field b ''score'')) \<le> 5"
    if "\<not> isNaN ?i" "isValidRating s2n (field b ''score'')" "getMovieById d ?i = Inr (Some m)"
  proof -
    note f = post_api_movies_id_rate_found [OF that]
    have "\<exists>st. addRating d (movie_id m) (the_integer (Number s2n (field b ''score'')))
              = Inr (fst ?p, st) \<and> snd ?p = (200, StatsBody st)"
      using f(2) by (intro exI conjI) (assumption, simp only: f(1) snd_conv)
    moreover have "ratings (fst ?p)
        = ratings d @ [\<lparr>rating_id = ratings_id_seq d + 1, movieId = movie_id m,
                         score = the_integer (Number s2n (field b ''score''))\<rparr>]"
      "movies (fst ?p) = movies d"
      by (simp_all only: f(1) fst_conv) simp_all
    ultimately show ?thesis
      using f(3-7) by blast
  qed
  have c6: "\<not> isNaN ?i \<and> isValidRating s2n (field b ''score'')
      \<and> (\<exists>m. getMovieById d ?i = Inr (Some m))"
    if "fst (snd ?p) = 200"
    using that
    by (simp add: post_api_movies_id_rate_cases split: if_splits sum.splits option.splits prod.splits)
  have c7: "fst ?p = d" if "fst (snd ?p) \<noteq> 200"
    using that
    by (simp add: post_api_movies_id_rate_cases split: if_splits sum.splits option.splits prod.splits)
  have c1: "?p = (d, (400, Error ''Invalid ID''))" if "isNaN ?i"
    using that by (simp only: post_api_movies_id_rate_cases) simp
  have c2: "?p = (d, (400, Error ''Invalid rating''))"
    if "\<not> isNaN ?i" "\<not> isValidRating s2n (field b ''score'')"
    using that by (simp only: post_api_movies_id_rate_cases) simp
  show ?thesis
    using c1 c2 c3 c4 c5 c6 c7 by blast
qed


theorem rate_handler_order_witness:
  "isNaN ((\<lambda>s. if s = ''1'' then Fin 1 else if s = ''999'' then Fin 999 else if s = ''2147483648'' then Fin 2147483648 else NaN) ''abc'')
   \<and> \<not> isValidRating (\<lambda>s. if s = ''1'' then Fin 1 else if s = ''999'' then Fin 999 else if s = ''2147483648'' then Fin 2147483648 else NaN) (JNum (Fin 9))
   \<and> post_api_movies_id_rate (\<lambda>s. if s = ''1'' then Fin 1 else if s = ''999'' then Fin 999 else if s = ''2147483648'' then Fin 2147483648 else NaN)
         \<lparr>movies = [\<lparr>title = ''The Godfather'', year = 1972, genre = ''Crime'', movie_id = 1\<rparr>], ratings = [], movies_id_seq = 1, ratings_id_seq = 0\<rparr> ''abc'' [''score'' \<mapsto> JNum (Fin 9)]
       = (\<lparr>movies = [\<lparr>title = ''The Godfather'', year = 1972, genre = ''Crime'', movie_id = 1\<rparr>], ratings = [], movies_id_seq = 1, ratings_id_seq = 0\<rparr>, (400, Error ''Invalid ID''))
   \<and> post_api_movies_id_rate (\<lambda>s. if s = ''1'' then Fin 1 else if s = ''999'' then Fin 999 else if s = ''2147483648'' then Fin 2147483648 else NaN)
         \<lparr>movies = [\<lparr>title = ''The Godfather'', year = 1972, genre = ''Crime'', movie_id = 1\<rparr>], ratings = [], movies_id_seq = 1, ratings_id_seq = 0\<rparr> ''999'' [''score'' \<mapsto> JNum (Fin 9)]
       = (\<lparr>movies = [\<lparr>title = ''The Godfather'', year = 1972, genre = ''Crime'', movie_id = 1\<rparr>], ratings = [], movies_id_seq = 1, ratings_id_seq = 0\<rparr>, (400, Error ''Invalid rating''))
   \<and> isValidRating (\<lambda>s. if s = ''1'' then Fin 1 else if s = ''999'' then Fin 999 else if s = ''2147483648'' then Fin 2147483648 else NaN) (JNum (Fin 4))
   \<and> \<not> int4_param (Fin 2147483648)
   \<and> post_api_movies_id_rate (\<lambda>s. if s = ''1'' then Fin 1 else if s = ''999'' then Fin 999 else if s = ''2147483648'' then Fin 2147483648 else NaN)
         \<lparr>movies = [\<lparr>title = ''The Godfather'', year = 1972, genre = ''Crime'', movie_id = 1\<rparr>], ratings = [], movies_id_seq = 1, ratings_id_seq = 0\<rparr> ''2147483648'' [''score'' \<mapsto> JNum (Fin 4)]
       = (\<lparr>movies = [\<lparr>title = ''The Godfather'', year = 1972, genre = ''Crime'', movie_id = 1\<rparr>], ratings = [], movies_id_seq = 1, ratings_id_seq = 0\<rparr>, (500, Error ''Failed to add rating''))
   \<and> int4_param (Fin 999)
   \<and> getMovieById \<lparr>movies = [\<lparr>title = ''The Godfather'', year = 1972, genre = ''Crime'', movie_id = 1\<rparr>], ratings = [], movies_id_seq = 1, ratings_id_seq = 0\<rparr> (Fin 999) = Inr None
   \<and> post_api_movies_id_rate (\<lambda>s. if s = ''1'' then Fin 1 else if s = ''999'' then Fin 999 else if s = ''2147483648'' then Fin 2147483648 else NaN)
         \<lparr>movies = [\<lparr>title = ''The Godfather'', year = 1972, genre = ''Crime'', movie_id = 1\<rparr>], ratings = [], movies_id_seq = 1, ratings_id_seq = 0\<rparr> ''999'' [''score'' \<mapsto> JNum (Fin 4)]
       = (\<lparr>movies = [\<lparr>title = ''The Godfather'', year = 1972, genre = ''Crime'', movie_id = 1\<rparr>], ratings = [], movies_id_seq = 1, ratings_id_seq = 0\<rparr>, (404, Error ''Not found''))
   \<and> getMovieById \<lparr>movies = [\<lparr>title = ''The Godfather'', year = 1972, genre = ''Crime'', movie_id = 1\<rparr>], ratings = [], movies_id_seq = 1, ratings_id_seq = 0\<rparr> (Fin 1) = Inr (Some \<lparr>title = ''The Godfather'', year = 1972, genre = ''Crime'', movie_id = 1\<rparr>)
   \<and> post_api_movies_id_rate (\<lambda>s. if s = ''1'' then Fin 1 else if s = ''999'' then Fin 999 else if s = ''2147483648'' then Fin 2147483648 else NaN)
         \<lparr>movies = [\<lparr>title = ''The Godfather'', year = 1972, genre = ''Crime'', movie_id = 1\<rparr>], ratings = [], movies_id_seq = 1, ratings_id_seq = 0\<rparr> ''1'' [''score'' \<mapsto> JNum (Fin 4)]
       = (\<lparr>movies = [\<lparr>title = ''The Godfather'', year = 1972, genre = ''Crime'', movie_id = 1\<rparr>], ratings = [], movies_id_seq = 1, ratings_id_seq = 0\<rparr>\<lparr>ratings := [\<lparr>rating_id = 1, movieId = 1, score = 4\<rparr>], ratings_id_seq := 1\<rparr>,
          (200, StatsBody \<lparr>stats_avgRating = 4, stats_totalRatings = 1\<rparr>))"
proof -
  let ?S = "(\<lambda>s. if s = ''1'' then Fin 1 else if s = ''999'' then Fin 999 else if s = ''2147483648'' then Fin 2147483648 else NaN)"
  let ?D = "\<lparr>movies = [\<lparr>title = ''The Godfather'', year = 1972, genre = ''Crime'', movie_id = 1\<rparr>], ratings = [], movies_id_seq = 1, ratings_id_seq = 0\<rparr>"
  note ev = isNaN_def isValidRating_def field_def getMovieById_def eq_col_def int4_param_def
  have a: "post_api_movies_id_rate ?S ?D ''abc'' [''score'' \<mapsto> JNum (Fin 9)] = (?D, (400, Error ''Invalid ID''))"
    using conjunct1 [OF rate_handler_order [where s2n = ?S and d = ?D and pid = "''abc''"
          and b = "[''score'' \<mapsto> JNum (Fin 9)]"]]
    by (simp add: ev)
  have b: "post_api_movies_id_rate ?S ?D ''999'' [''score'' \<mapsto> JNum (Fin 9)] = (?D, (400, Error ''Invalid rating''))"
    using conjunct1 [OF conjunct2 [OF rate_handler_order [where s2n = ?S and d = ?D
          and pid = "''999''" and b = "[''score'' \<mapsto> JNum (Fin 9)]"]]]
    by (simp add: ev)
  have e: "post_api_movies_id_rate ?S ?D ''2147483648'' [''score'' \<mapsto> JNum (Fin 4)]
       = (?D, (500, Error ''Failed to add rating''))"
    using conjunct1 [OF conjunct2 [OF conjunct2 [OF rate_handler_order [where s2n = ?S
          and d = ?D and pid = "''2147483648''" and b = "[''score'' \<mapsto> JNum (Fin 4)]"]]]]
    by (simp add: ev)
  have c: "post_api_movies_id_rate ?S ?D ''999'' [''score'' \<mapsto> JNum (Fin 4)] = (?D, (404, Error ''Not found''))"
    using conjunct1 [OF conjunct2 [OF conjunct2 [OF conjunct2 [OF rate_handler_order
          [where s2n = ?S and d = ?D and pid = "''999''" and b = "[''score'' \<mapsto> JNum (Fin 4)]"]]]]]
    by (simp add: ev)
  have d: "post_api_movies_id_rate ?S ?D ''1'' [''score'' \<mapsto> JNum (Fin 4)]
       = (?D\<lparr>ratings := [\<lparr>rating_id = 1, movieId = 1, score = 4\<rparr>], ratings_id_seq := 1\<rparr>,
          (200, StatsBody \<lparr>stats_avgRating = 4, stats_totalRatings = 1\<rparr>))"
    using conjunct1 [OF conjunct2 [OF conjunct2 [OF conjunct2 [OF conjunct2 [OF rate_handler_order
          [where s2n = ?S and d = ?D and pid = "''1''" and b = "[''score'' \<mapsto> JNum (Fin 4)]"
            and m = "\<lparr>title = ''The Godfather'', year = 1972, genre = ''Crime'', movie_id = 1\<rparr>"]]]]]]
    by (simp add: ev post_api_movies_id_rate_def addRating_def insert_rating_def int4_def
        sql_AVG_def sql_ROUND_def Let_def)
  show ?thesis
    using a b c d e by (simp add: ev)
qed

text \<open>
  C5 as it is written fails: the id 2147483648 is a number, the score 4 is valid and no
  movie has this id, yet the answer is not 404 but 500, since the lookup itself fails.
\<close>

theorem rate_handler_missing_movie_counterexample:
  "\<not> isNaN (Number (\<lambda>s. if s = ''1'' then Fin 1 else if s = ''999'' then Fin 999 else if s = ''2147483648'' then Fin 2147483648 else NaN) (JStr ''2147483648''))
   \<and> isValidRating (\<lambda>s. if s = ''1'' then Fin 1 else if s = ''999'' then Fin 999 else if s = ''2147483648'' then Fin 2147483648 else NaN) (field [''score'' \<mapsto> JNum (Fin 4)] ''score'')
   \<and> \<not> list_ex (\<lambda>m. eq_col (movie_id m) (Number (\<lambda>s. if s = ''1'' then Fin 1 else if s = ''999'' then Fin 999 else if s = ''2147483648'' then Fin 2147483648 else NaN) (JStr ''2147483648'')))
           (movies \<lparr>movies = [\<lparr>title = ''The Godfather'', year = 1972, genre = ''Crime'', movie_id = 1\<rparr>], ratings = [], movies_id_seq = 1, ratings_id_seq = 0\<rparr>)
   \<and> post_api_movies_id_rate (\<lambda>s. if s = ''1'' then Fin 1 else if s = ''999'' then Fin 999 else if s = ''2147483648'' then Fin 2147483648 else NaN)
         \<lparr>movies = [\<lparr>title = ''The Godfather'', year = 1972, genre = ''Crime'', movie_id = 1\<rparr>], ratings = [], movies_id_seq = 1, ratings_id_seq = 0\<rparr> ''2147483648'' [''score'' \<mapsto> JNum (Fin 4)]
       = (\<lparr>movies = [\<lparr>title = ''The Godfather'', year = 1972, genre = ''Crime'', movie_id = 1\<rparr>], ratings = [], movies_id_seq = 1, ratings_id_seq = 0\<rparr>, (500, Error ''Failed to add rating''))
   \<and> post_api_movies_id_rate (\<lambda>s. if s = ''1'' then Fin 1 else if s = ''999'' then Fin 999 else if s = ''2147483648'' then Fin 2147483648 else NaN)
         \<lparr>movies = [\<lparr>title = ''The Godfather'', year = 1972, genre = ''Crime'', movie_id = 1\<rparr>], ratings = [], movies_id_seq = 1, ratings_id_seq = 0\<rparr> ''2147483648'' [''score'' \<mapsto> JNum (Fin 4)]
       \<noteq> (\<lparr>movies = [\<lparr>title = ''The Godfather'', year = 1972, genre = ''Crime'', movie_id = 1\<rparr>], ratings = [], movies_id_seq = 1, ratings_id_seq = 0\<rparr>, (404, Error ''Not found''))"
  by (simp add: post_api_movies_id_rate_def isNaN_def isValidRating_def field_def getMovieById_def
      eq_col_def int4_param_def Let_def)

subsection \<open>Ids that are not integers\<close>

lemma get_api_movies_id_invalid_iff:
  "get_api_movies_id s2n newest_first d pid = (400, Error ''Invalid ID'')
     \<longleftrightarrow> Number s2n (JStr pid) = NaN"
  by (simp add: get_api_movies_id_def Let_def isNaN_def split: option.splits sum.splits)

lemma post_api_movies_id_rate_invalid_iff:
  "snd (post_api_movies_id_rate s2n d pid b) = (400, Error ''Invalid ID'')
     \<longleftrightarrow> Number s2n (JStr pid) = NaN"
  by (simp add: post_api_movies_id_rate_cases isNaN_def split: option.splits sum.splits prod.splits)

lemma three_halves_not_int: "(3 / 2 :: rat) \<notin> \<int>"
proof
  assume "(3 / 2 :: rat) \<in> \<int>"
  then obtain z :: int where "(3 / 2 :: rat) = of_int z" by (rule Ints_cases)
  then have "(of_int (z * 2) :: rat) = of_int 3" by simp
  then have "z * 2 = 3" by (simp only: of_int_eq_iff)
  then show False by presburger
qed

text \<open>
  C10, amended. Both handlers with an id in the path answer 400 ``Invalid ID'' exactly when
  the id coerces to NaN. An id that coerces to a finite number that is not an integer
  passes this check and reaches the lookup. No stored movie has it, but the answer is
  not 404: the store refuses the value for the integer id column, and the detail handler
  answers 500 ``Failed to fetch movie''. The rate handler answers 400 ``Invalid rating''
  when the score is invalid and 500 ``Failed to add rating'' when it is valid.
\<close>

theorem non_integer_id_not_found:
  "(get_api_movies_id s2n newest_first d pid = (400, Error ''Invalid ID'')
      \<longleftrightarrow> Number s2n (JStr pid) = NaN)
   \<and> (snd (post_api_movies_id_rate s2n d pid b) = (400, Error ''Invalid ID'')
        \<longleftrightarrow> Number s2n (JStr pid) = NaN)
   \<and> (Number s2n (JStr pid) = Fin r \<and> r \<notin> \<int> \<longrightarrow>
        \<not> list_ex (\<lambda>m. eq_col (movie_id m) (Number s2n (JStr pid))) (movies d)
      \<and> getMovieById d (Number s2n (JStr pid)) = Inl BadParameter
      \<and> get_api_movies_id s2n newest_first d pid = (500, Error ''Failed to fetch movie'')
      \<and> (isValidRating s2n (field b ''score'') \<longrightarrow>
           post_api_movies_id_rate s2n d pid b = (d, (500, Error ''Failed to add rating'')))
      \<and> (\<not> isValidRating s2n (field b ''score'') \<longrightarrow>
           post_api_movies_id_rate s2n d pid b = (d, (400, Error ''Invalid rating''))))"
proof -
  have "\<not> list_ex (\<lambda>m. eq_col (movie_id m) (Number s2n (JStr pid))) (movies d)
      \<and> getMovieById d (Number s2n (JStr pid)) = Inl BadParameter
      \<and> get_api_movies_id s2n newest_first d pid = (500, Error ''Failed to fetch movie'')
      \<and> (isValidRating s2n (field b ''score'') \<longrightarrow>
           post_api_movies_id_rate s2n d pid b = (d, (500, Error ''Failed to add rating'')))
      \<and> (\<not> isValidRating s2n (field b ''score'') \<longrightarrow>
           post_api_movies_id_rate s2n d pid b = (d, (400, Error ''Invalid rating'')))"
    if "Number s2n (JStr pid) = Fin r" "r \<notin> \<int>"
    using that getMovieById_non_integer [of r d]
    by (simp add: get_api_movies_id_def post_api_movies_id_rate_cases isNaN_def del: Number.simps)
  then show ?thesis
    using get_api_movies_id_invalid_iff [of s2n newest_first d pid]
      post_api_movies_id_rate_invalid_iff [of s2n d pid b]
    by blast
qed

theorem non_integer_id_not_found_witness:
  "Number (\<lambda>s. if s = ''1.5'' then Fin (3 / 2) else NaN) (JStr ''1.5'') = Fin (3 / 2)
   \<and> (3 / 2 :: rat) \<notin> \<int>
   \<and> getMovieById \<lparr>movies = [\<lparr>title = ''The Godfather'', year = 1972, genre = ''Crime'', movie_id = 1\<rparr>], ratings = [], movies_id_seq = 1, ratings_id_seq = 0\<rparr> (Fin (3 / 2)) = Inl BadParameter
   \<and> get_api_movies_id (\<lambda>s. if s = ''1.5'' then Fin (3 / 2) else NaN) rev
         \<lparr>movies = [\<lparr>title = ''The Godfather'', year = 1972, genre = ''Crime'', movie_id = 1\<rparr>], ratings = [], movies_id_seq = 1, ratings_id_seq = 0\<rparr> ''1.5''
       = (500, Error ''Failed to fetch movie'')
   \<and> isValidRating (\<lambda>s. if s = ''1.5'' then Fin (3 / 2) else NaN) (field [''score'' \<mapsto> JNum (Fin 4)] ''score'')
   \<and> post_api_movies_id_rate (\<lambda>s. if s = ''1.5'' then Fin (3 / 2) else NaN)
         \<lparr>movies = [\<lparr>title = ''The Godfather'', year = 1972, genre = ''Crime'', movie_id = 1\<rparr>], ratings = [], movies_id_seq = 1, ratings_id_seq = 0\<rparr> ''1.5'' [''score'' \<mapsto> JNum (Fin 4)]
       = (\<lparr>movies = [\<lparr>title = ''The Godfather'', year = 1972, genre = ''Crime'', movie_id = 1\<rparr>], ratings = [], movies_id_seq = 1, ratings_id_seq = 0\<rparr>, (500, Error ''Failed to add rating''))"
  using non_integer_id_not_found [where s2n = "(\<lambda>s. if s = ''1.5'' then Fin (3 / 2) else NaN)" and pid = "''1.5''" and r = "3 / 2"
      and d = "\<lparr>movies = [\<lparr>title = ''The Godfather'', year = 1972, genre = ''Crime'', movie_id = 1\<rparr>], ratings = [], movies_id_seq = 1, ratings_id_seq = 0\<rparr>" and b = "[''score'' \<mapsto> JNum (Fin 4)]" and newest_first = rev] three_halves_not_int
  by (simp add: isValidRating_def field_def)

text \<open>
  C10 as it is written fails: for the id 1.5 neither handler answers 404.
\<close>

theorem non_integer_id_counterexample:
  "Number (\<lambda>s. if s = ''1.5'' then Fin (3 / 2) else NaN) (JStr ''1.5'') = Fin (3 / 2)
   \<and> (3 / 2 :: rat) \<notin> \<int>
   \<and> isValidRating (\<lambda>s. if s = ''1.5'' then Fin (3 / 2) else NaN) (field [''score'' \<mapsto> JNum (Fin 4)] ''score'')
   \<and> get_api_movies_id (\<lambda>s. if s = ''1.5'' then Fin (3 / 2) else NaN) rev
         \<lparr>movies = [\<lparr>title = ''The Godfather'', year = 1972, genre = ''Crime'', movie_id = 1\<rparr>], ratings = [], movies_id_seq = 1, ratings_id_seq = 0\<rparr> ''1.5''
       \<noteq> (404, Error ''Not found'')
   \<and> post_api_movies_id_rate (\<lambda>s. if s = ''1.5'' then Fin (3 / 2) else NaN)
         \<lparr>movies = [\<lparr>title = ''The Godfather'', year = 1972, genre = ''Crime'', movie_id = 1\<rparr>], ratings = [], movies_id_seq = 1, ratings_id_seq = 0\<rparr> ''1.5'' [''score'' \<mapsto> JNum (Fin 4)]
       \<noteq> (\<lparr>movies = [\<lparr>title = ''The Godfather'', year = 1972, genre = ''Crime'', movie_id = 1\<rparr>], ratings = [], movies_id_seq = 1, ratings_id_seq = 0\<rparr>, (404, Error ''Not found''))"
proof -
  have "getMovieById \<lparr>movies = [\<lparr>title = ''The Godfather'', year = 1972, genre = ''Crime'', movie_id = 1\<rparr>], ratings = [], movies_id_seq = 1, ratings_id_seq = 0\<rparr> (Fin (3 / 2)) = Inl BadParameter"
    by (rule getMovieById_non_integer(1) [OF three_halves_not_int])
  then show ?thesis
    using three_halves_not_int
    by (simp add: get_api_movies_id_def post_api_movies_id_rate_cases
        isNaN_def isValidRating_def field_def Let_def)
qed

subsection \<open>Adding a rating\<close>

lemma sql_ROUND_close: "\<bar>sql_ROUND v 1 - v\<bar> \<le> 1 / 20"
proof -
  define a where "a = \<bar>v\<bar> * 10"
  define f :: rat where "f = of_int \<lfloor>a + 1 / 2\<rfloor>"
  have lo: "a - 1 / 2 < f" unfolding f_def by linarith
  have hi: "f \<le> a + 1 / 2" unfolding f_def by linarith
  have r: "sql_ROUND v 1 = sgn v * f / 10"
    by (simp add: sql_ROUND_def f_def a_def)
  consider "v = 0" | "0 < v" | "v < 0" by linarith
  then show ?thesis
  proof cases
    case 1
    then show ?thesis by (simp add: sql_ROUND_def)
  next
    case 2
    then have "sql_ROUND v 1 - v = (f - a) / 10"
      by (simp add: r a_def diff_divide_distrib del: One_nat_def)
    moreover have "\<bar>(f - a) / 10\<bar> \<le> 1 / 20" using lo hi by (simp add: abs_if)
    ultimately show ?thesis by (simp only:)
  next
    case 3
    then have "sql_ROUND v 1 - v = (a - f) / 10"
      by (simp add: r a_def diff_divide_distrib del: One_nat_def)
    moreover have "\<bar>(a - f) / 10\<bar> \<le> 1 / 20" using lo hi by (simp add: abs_if)
    ultimately show ?thesis by (simp only:)
  qed
qed

lemma sql_ROUND_one_decimal: "\<exists>k :: int. sql_ROUND v 1 * 10 = of_int k"
proof -
  have "sql_ROUND v 1 * 10 = of_int (sgn \<lfloor>v\<rfloor> * \<lfloor>\<bar>v\<bar> * 10 + 1 / 2\<rfloor>) 
     \<or> sql_ROUND v 1 * 10 = of_int (\<lfloor>\<bar>v\<bar> * 10 + 1 / 2\<rfloor>)
     \<or> sql_ROUND v 1 * 10 = of_int (- \<lfloor>\<bar>v\<bar> * 10 + 1 / 2\<rfloor>)
     \<or> sql_ROUND v 1 * 10 = of_int 0"
    by (cases "v = 0"; cases "0 < v") (simp_all add: sql_ROUND_def)
  then show ?thesis by blast
qed



lemma sql_ROUND_mean:
  assumes "xs \<noteq> []"
  shows "sql_ROUND (of_int (sum_list xs) / of_nat (length xs)) 1 = rounded_mean xs"
proof -
  define v :: rat where "v = of_int (sum_list xs) / of_nat (length xs)"
  consider "v = 0" | "0 < v" | "v < 0" by linarith
  then have "sql_ROUND v 1 = (if 0 \<le> v then of_int \<lfloor>v * 10 + 1 / 2\<rfloor> / 10
      else - (of_int \<lfloor>- v * 10 + 1 / 2\<rfloor> / 10))"
    by cases (simp_all add: sql_ROUND_def)
  with assms show ?thesis
    by (simp add: rounded_mean_def mean_def v_def)
qed

lemma stats_avg_rounded_mean: "stats_avg xs = rounded_mean xs"
proof (cases "xs = []")
  case True
  then show ?thesis
    by (simp add: stats_avg_def sql_AVG_def sql_COALESCE_def rounded_mean_def)
next
  case False
  with sql_ROUND_mean [OF False] show ?thesis
    by (simp add: stats_avg_def sql_AVG_def sql_COALESCE_def)
qed

lemma rounded_mean_close:
  assumes "xs \<noteq> []"
  shows "\<bar>rounded_mean xs - of_int (sum_list xs) / of_nat (length xs)\<bar> \<le> 1 / 20"
    and "\<exists>k :: int. rounded_mean xs * 10 = of_int k"
  using sql_ROUND_close [of "of_int (sum_list xs) / of_nat (length xs)"]
    sql_ROUND_one_decimal [of "of_int (sum_list xs) / of_nat (length xs)"]
  by (simp_all only: sql_ROUND_mean [OF assms])

lemma rounded_mean_spec:
  assumes "\<forall>x \<in> set xs. (0::int) \<le> x"
  shows "rounded_mean xs = spec_average xs"
  using stats_avg_eq_spec [OF assms] by (simp only: stats_avg_rounded_mean)

lemma addRating_scores:
  assumes "list_ex (\<lambda>m. movie_id m = i) (movies d)" "int4 s"
  shows "addRating d i s =
     Inr (d\<lparr>ratings := ratings d @ [\<lparr>rating_id = ratings_id_seq d + 1, movieId = i, score = s\<rparr>],
             ratings_id_seq := ratings_id_seq d + 1\<rparr>,
          \<lparr>stats_avgRating = rounded_mean (scores_of d i @ [s]),
           stats_totalRatings = length (scores_of d i) + 1\<rparr>)"
  using sql_ROUND_mean [of "scores_of d i @ [s]"]
  by (simp only: addRating_exists [OF assms]) simp

lemma addRating_bad_score: "\<not> int4 s \<Longrightarrow> addRating d i s = Inl BadParameter"
  by (simp add: addRating_def insert_rating_def)

text \<open>
  C9, amended. For every id of an existing movie and every score that is a 32-bit
  integer, \<open>addRating\<close> appends one rating row and leaves the movies alone, and the
  statistics it returns are read from the table that holds the new row: the count is one
  more than the number of ratings the movie had, and the average is the mean of the old
  scores and the new one, rounded to one decimal (a multiple of 0.1 at most 0.05 away from
  the mean). With no negative score this is the average of the specification. For an id
  that no movie has, the foreign key refuses the insert: nothing is stored and nothing is
  returned; a score beyond 32 bits is refused as well.
\<close>

theorem addRating_read_your_write:
  "(list_ex (\<lambda>m. movie_id m = i) (movies d) \<and> int4 s \<longrightarrow>
      (\<exists>d' st. addRating d i s = Inr (d', st)
         \<and> ratings d' = ratings d @ [\<lparr>rating_id = ratings_id_seq d + 1, movieId = i, score = s\<rparr>]
         \<and> movies d' = movies d
         \<and> scores_of d' i = scores_of d i @ [s]
         \<and> stats_totalRatings st = length (scores_of d i) + 1
         \<and> stats_totalRatings st = length (scores_of d' i)
         \<and> stats_avgRating st = rounded_mean (scores_of d' i)
         \<and> (\<exists>k :: int. stats_avgRating st * 10 = of_int k)
         \<and> \<bar>stats_avgRating st
              - of_int (sum_list (scores_of d i @ [s])) / of_nat (length (scores_of d i @ [s]))\<bar>
             \<le> 1 / 20
         \<and> ((\<forall>x \<in> set (scores_of d i @ [s]). 0 \<le> x) \<longrightarrow>
              stats_avgRating st = spec_average (scores_of d i @ [s]))))
   \<and> (\<not> list_ex (\<lambda>m. movie_id m = i) (movies d) \<and> int4 s \<longrightarrow>
        addRating d i s = Inl ForeignKeyViolation)
   \<and> (\<not> int4 s \<longrightarrow> addRating d i s = Inl BadParameter)"
proof -
  have ok: "\<exists>d' st. addRating d i s = Inr (d', st)
         \<and> ratings d' = ratings d @ [\<lparr>rating_id = ratings_id_seq d + 1, movieId = i, score = s\<rparr>]
         \<and> movies d' = movies d
         \<and> scores_of d' i = scores_of d i @ [s]
         \<and> stats_totalRatings st = length (scores_of d i) + 1
         \<and> stats_totalRatings st = length (scores_of d' i)
         \<and> stats_avgRating st = rounded_mean (scores_of d' i)
         \<and> (\<exists>k :: int. stats_avgRating st * 10 = of_int k)
         \<and> \<bar>stats_avgRating st
              - of_int (sum_list (scores_of d i @ [s])) / of_nat (length (scores_of d i @ [s]))\<bar>
             \<le> 1 / 20
         \<and> ((\<forall>x \<in> set (scores_of d i @ [s]). 0 \<le> x) \<longrightarrow>
              stats_avgRating st = spec_average (scores_of d i @ [s]))"
    if h: "list_ex (\<lambda>m. movie_id m = i) (movies d)" "int4 s"
  proof -
    let ?d' = "d\<lparr>ratings := ratings d @ [\<lparr>rating_id = ratings_id_seq d + 1, movieId = i, score = s\<rparr>],
             ratings_id_seq := ratings_id_seq d + 1\<rparr>"
    let ?st = "\<lparr>stats_avgRating = rounded_mean (scores_of d i @ [s]),
           stats_totalRatings = length (scores_of d i) + 1\<rparr>"
    have ne: "scores_of d i @ [s] \<noteq> []" by simp
    have sc: "scores_of ?d' i = scores_of d i @ [s]" by (simp add: scores_of_def)
    have "addRating d i s = Inr (?d', ?st)" by (rule addRating_scores [OF h])
    moreover have "ratings ?d' = ratings d @ [\<lparr>rating_id = ratings_id_seq d + 1, movieId = i, score = s\<rparr>]"
      "movies ?d' = movies d" by simp_all
    moreover have "stats_totalRatings ?st = length (scores_of d i) + 1"
      "stats_totalRatings ?st = length (scores_of ?d' i)"
      "stats_avgRating ?st = rounded_mean (scores_of ?d' i)"
      by (simp_all add: sc)
    moreover have "\<exists>k :: int. stats_avgRating ?st * 10 = of_int k"
      using rounded_mean_close(2) [OF ne] by simp
    moreover have "\<bar>stats_avgRating ?st
              - of_int (sum_list (scores_of d i @ [s])) / of_nat (length (scores_of d i @ [s]))\<bar>
             \<le> 1 / 20"
      using rounded_mean_close(1) [OF ne] by simp
    moreover have "(\<forall>x \<in> set (scores_of d i @ [s]). 0 \<le> x) \<longrightarrow>
              stats_avgRating ?st = spec_average (scores_of d i @ [s])"
      using rounded_mean_spec [of "scores_of d i @ [s]"] by simp
    ultimately show ?thesis using sc by blast
  qed
  show ?thesis
    using ok addRating_missing [of i d s] addRating_bad_score [of s d i] by blast
qed

theorem addRating_read_your_write_witness:
  "list_ex (\<lambda>m. movie_id m = 1) (movies \<lparr>movies = [\<lparr>title = ''The Godfather'', year = 1972, genre = ''Crime'', movie_id = 1\<rparr>], ratings = [\<lparr>rating_id = 1, movieId = 1, score = 5\<rparr>, \<lparr>rating_id = 2, movieId = 1, score = 4\<rparr>], movies_id_seq = 1, ratings_id_seq = 2\<rparr>)
   \<and> int4 4
   \<and> scores_of \<lparr>movies = [\<lparr>title = ''The Godfather'', year = 1972, genre = ''Crime'', movie_id = 1\<rparr>], ratings = [\<lparr>rating_id = 1, movieId = 1, score = 5\<rparr>, \<lparr>rating_id = 2, movieId = 1, score = 4\<rparr>], movies_id_seq = 1, ratings_id_seq = 2\<rparr> 1 = [5, 4]
   \<and> (0 :: int) \<le> 5 \<and> (0 :: int) \<le> 4
   \<and> addRating \<lparr>movies = [\<lparr>title = ''The Godfather'', year = 1972, genre = ''Crime'', movie_id = 1\<rparr>], ratings = [\<lparr>rating_id = 1, movieId = 1, score = 5\<rparr>, \<lparr>rating_id = 2, movieId = 1, score = 4\<rparr>], movies_id_seq = 1, ratings_id_seq = 2\<rparr> 1 4
       = Inr (\<lparr>movies = [\<lparr>title = ''The Godfather'', year = 1972, genre = ''Crime'', movie_id = 1\<rparr>], ratings = [\<lparr>rating_id = 1, movieId = 1, score = 5\<rparr>, \<lparr>rating_id = 2, movieId = 1, score = 4\<rparr>], movies_id_seq = 1, ratings_id_seq = 2\<rparr>\<lparr>ratings := [\<lparr>rating_id = 1, movieId = 1, score = 5\<rparr>,
                            \<lparr>rating_id = 2, movieId = 1, score = 4\<rparr>,
                            \<lparr>rating_id = 3, movieId = 1, score = 4\<rparr>],
                ratings_id_seq := 3\<rparr>,
              \<lparr>stats_avgRating = 43 / 10, stats_totalRatings = 3\<rparr>)
   \<and> spec_average [5, 4, 4] = 43 / 10
   \<and> \<not> list_ex (\<lambda>m. movie_id m = 999) (movies \<lparr>movies = [\<lparr>title = ''The Godfather'', year = 1972, genre = ''Crime'', movie_id = 1\<rparr>], ratings = [\<lparr>rating_id = 1, movieId = 1, score = 5\<rparr>, \<lparr>rating_id = 2, movieId = 1, score = 4\<rparr>], movies_id_seq = 1, ratings_id_seq = 2\<rparr>)
   \<and> addRating \<lparr>movies = [\<lparr>title = ''The Godfather'', year = 1972, genre = ''Crime'', movie_id = 1\<rparr>], ratings = [\<lparr>rating_id = 1, movieId = 1, score = 5\<rparr>, \<lparr>rating_id = 2, movieId = 1, score = 4\<rparr>], movies_id_seq = 1, ratings_id_seq = 2\<rparr> 999 4 = Inl ForeignKeyViolation
   \<and> \<not> int4 4294967296
   \<and> addRating \<lparr>movies = [\<lparr>title = ''The Godfather'', year = 1972, genre = ''Crime'', movie_id = 1\<rparr>], ratings = [\<lparr>rating_id = 1, movieId = 1, score = 5\<rparr>, \<lparr>rating_id = 2, movieId = 1, score = 4\<rparr>], movies_id_seq = 1, ratings_id_seq = 2\<rparr> 1 4294967296 = Inl BadParameter"
  using addRating_read_your_write [where i = 1 and s = 4
      and d = "\<lparr>movies = [\<lparr>title = ''The Godfather'', year = 1972, genre = ''Crime'', movie_id = 1\<rparr>], ratings = [\<lparr>rating_id = 1, movieId = 1, score = 5\<rparr>, \<lparr>rating_id = 2, movieId = 1, score = 4\<rparr>], movies_id_seq = 1, ratings_id_seq = 2\<rparr>"]
    addRating_read_your_write [where i = 999 and s = 4
      and d = "\<lparr>movies = [\<lparr>title = ''The Godfather'', year = 1972, genre = ''Crime'', movie_id = 1\<rparr>], ratings = [\<lparr>rating_id = 1, movieId = 1, score = 5\<rparr>, \<lparr>rating_id = 2, movieId = 1, score = 4\<rparr>], movies_id_seq = 1, ratings_id_seq = 2\<rparr>"]
    addRating_read_your_write [where i = 1 and s = 4294967296
      and d = "\<lparr>movies = [\<lparr>title = ''The Godfather'', year = 1972, genre = ''Crime'', movie_id = 1\<rparr>], ratings = [\<lparr>rating_id = 1, movieId = 1, score = 5\<rparr>, \<lparr>rating_id = 2, movieId = 1, score = 4\<rparr>], movies_id_seq = 1, ratings_id_seq = 2\<rparr>"]
  by (simp add: scores_of_def addRating_def insert_rating_def int4_def Let_def sql_AVG_def
      sql_ROUND_def spec_average_def round_def)

text \<open>
  C9 as it is written fails: for the id 999, which no movie has, \<open>addRating\<close> returns
  no statistics.
\<close>

theorem addRating_missing_movie_counterexample:
  "\<not> list_ex (\<lambda>m. movie_id m = 999) (movies \<lparr>movies = [\<lparr>title = ''The Godfather'', year = 1972, genre = ''Crime'', movie_id = 1\<rparr>], ratings = [\<lparr>rating_id = 1, movieId = 1, score = 5\<rparr>, \<lparr>rating_id = 2, movieId = 1, score = 4\<rparr>], movies_id_seq = 1, ratings_id_seq = 2\<rparr>)
   \<and> addRating \<lparr>movies = [\<lparr>title = ''The Godfather'', year = 1972, genre = ''Crime'', movie_id = 1\<rparr>], ratings = [\<lparr>rating_id = 1, movieId = 1, score = 5\<rparr>, \<lparr>rating_id = 2, movieId = 1, score = 4\<rparr>], movies_id_seq = 1, ratings_id_seq = 2\<rparr> 999 4 = Inl ForeignKeyViolation"
  by (simp add: addRating_def insert_rating_def int4_def)

subsection \<open>The list of movies\<close>



















subsection \<open>The primary key is kept\<close>

lemma movies_pkey_distinct: "movies_pkey d \<Longrightarrow> distinct (map movie_id (movies d))"
  by (simp add: movies_pkey_def)

lemma movies_pkey_insert_movie:
  assumes "movies_pkey d"
  shows "movies_pkey (fst (insert_movie d v))"
proof -
  have "movie_id m \<noteq> movies_id_seq d + 1" if "m \<in> set (movies d)" for m
    using assms that by (force simp: movies_pkey_def list_all_iff)
  with assms show ?thesis
    by (auto simp: movies_pkey_def insert_movie_def Let_def list_all_iff)
qed

lemma movies_pkey_insert_rating:
  "movies_pkey d \<Longrightarrow> insert_rating d v = Inr d' \<Longrightarrow> movies_pkey d'"
  by (auto simp: movies_pkey_def insert_rating_def Let_def split: if_splits)

lemma movies_pkey_insert_movies:
  "movies_pkey d \<Longrightarrow> movies_pkey (foldl (\<lambda>x v. fst (insert_movie x v)) d vs)"
  by (induction vs arbitrary: d) (simp_all add: movies_pkey_insert_movie)

lemma movies_pkey_insert_ratings:
  "movies_pkey d \<Longrightarrow> insert_ratings d vs = Inr d' \<Longrightarrow> movies_pkey d'"
proof (induction vs arbitrary: d)
  case Nil
  then show ?case by simp
next
  case (Cons v vs)
  from Cons.prems(2) obtain d1 where d1: "insert_rating d v = Inr d1" "insert_ratings d1 vs = Inr d'"
    by (auto split: sum.splits)
  from movies_pkey_insert_rating [OF Cons.prems(1) d1(1)] d1(2) show ?case
    by (rule Cons.IH)
qed

lemma movies_pkey_seedMovies:
  assumes "movies_pkey d" "seedMovies d = Inr d'"
  shows "movies_pkey d'"
proof (cases "movies d = []")
  case False
  with seedMovies_nonempty [OF False] assms show ?thesis by simp
next
  case True
  with assms(2) obtain vs where
    "insert_ratings (foldl (\<lambda>x v. fst (insert_movie x v)) d seedData) vs = Inr d'"
    by (auto simp: seedMovies_def Let_def split: sum.splits)
  with movies_pkey_insert_movies [OF assms(1)] show ?thesis
    by (rule movies_pkey_insert_ratings)
qed

lemma movies_pkey_post_api_movies:
  assumes "movies_pkey d"
  shows "movies_pkey (fst (post_api_movies izs fullYear d b))"
proof (cases "insertMovieSchema izs b")
  case (Inl e)
  with assms show ?thesis by (simp add: post_api_movies_invalid_fields)
next
  case (Inr parsed)
  with assms show ?thesis
    by (simp add: post_api_movies_parsed [OF Inr, where s2n = "\<lambda>_. NaN"] addMovie_def
        movies_pkey_insert_movie)
qed

lemma movies_pkey_post_api_movies_id_rate:
  assumes "movies_pkey d"
  shows "movies_pkey (fst (post_api_movies_id_rate s2n d pid b))"
proof -
  have "movies_pkey d'" if "addRating d i s = Inr (d', st)" for i s d' st
    using that assms
    by (auto simp: addRating_def Let_def split: sum.splits dest: movies_pkey_insert_rating)
  with assms show ?thesis
    by (auto simp: post_api_movies_id_rate_cases split: option.splits sum.splits)
qed

end
